theory Spec2Isabelle
  imports Complex_Main
begin

section \<open>Python values\<close>

text \<open>
  A Python float is modelled as a real number or one of the IEEE special values. Arithmetic
  on finite values is exact: rounding, overflow and the sign of zero are outside the model.
  The special values are kept, because the engine uses NaN as its marker of a missing
  number and compares with it.
\<close>

datatype pyfloat = NaN | Fin real | PInf | NInf

fun fneg :: "pyfloat \<Rightarrow> pyfloat" where
  "fneg NaN = NaN"
| "fneg (Fin a) = Fin (- a)"
| "fneg PInf = NInf"
| "fneg NInf = PInf"

fun fadd :: "pyfloat \<Rightarrow> pyfloat \<Rightarrow> pyfloat" where
  "fadd NaN _ = NaN"
| "fadd _ NaN = NaN"
| "fadd (Fin a) (Fin b) = Fin (a + b)"
| "fadd (Fin _) PInf = PInf"
| "fadd (Fin _) NInf = NInf"
| "fadd PInf (Fin _) = PInf"
| "fadd NInf (Fin _) = NInf"
| "fadd PInf PInf = PInf"
| "fadd NInf NInf = NInf"
| "fadd PInf NInf = NaN"
| "fadd NInf PInf = NaN"

definition fsub :: "pyfloat \<Rightarrow> pyfloat \<Rightarrow> pyfloat" where
  "fsub a b = fadd a (fneg b)"

text \<open>The sign of an infinite product: \<open>pos\<close> says whether the infinite factor is positive.\<close>

definition inf_times :: "bool \<Rightarrow> real \<Rightarrow> pyfloat" where
  "inf_times pos b =
     (if b = 0 then NaN else if (0 < b) = pos then PInf else NInf)"

fun fmul :: "pyfloat \<Rightarrow> pyfloat \<Rightarrow> pyfloat" where
  "fmul NaN _ = NaN"
| "fmul _ NaN = NaN"
| "fmul (Fin a) (Fin b) = Fin (a * b)"
| "fmul (Fin a) PInf = inf_times True a"
| "fmul (Fin a) NInf = inf_times False a"
| "fmul PInf (Fin b) = inf_times True b"
| "fmul NInf (Fin b) = inf_times False b"
| "fmul PInf PInf = PInf"
| "fmul NInf NInf = PInf"
| "fmul PInf NInf = NInf"
| "fmul NInf PInf = NInf"

text \<open>
  Division as numpy and pandas do it on float arrays: dividing by zero raises nothing and
  gives an infinity, or NaN for 0/0.
\<close>

fun fdiv :: "pyfloat \<Rightarrow> pyfloat \<Rightarrow> pyfloat" where
  "fdiv NaN _ = NaN"
| "fdiv _ NaN = NaN"
| "fdiv (Fin a) (Fin b) =
     (if b = 0 then (if a = 0 then NaN else if 0 < a then PInf else NInf) else Fin (a / b))"
| "fdiv (Fin _) PInf = Fin 0"
| "fdiv (Fin _) NInf = Fin 0"
| "fdiv PInf (Fin b) = (if 0 \<le> b then PInf else NInf)"
| "fdiv NInf (Fin b) = (if 0 \<le> b then NInf else PInf)"
| "fdiv PInf PInf = NaN"
| "fdiv PInf NInf = NaN"
| "fdiv NInf PInf = NaN"
| "fdiv NInf NInf = NaN"

text \<open>\<open>a < b\<close> on floats: every comparison with NaN is false.\<close>

fun flt :: "pyfloat \<Rightarrow> pyfloat \<Rightarrow> bool" where
  "flt NaN _ = False"
| "flt _ NaN = False"
| "flt (Fin a) (Fin b) = (a < b)"
| "flt (Fin _) PInf = True"
| "flt (Fin _) NInf = False"
| "flt PInf _ = False"
| "flt NInf NInf = False"
| "flt NInf _ = True"

text \<open>\<open>x != x\<close>, the source's test for NaN.\<close>

fun isnan :: "pyfloat \<Rightarrow> bool" where
  "isnan NaN = True"
| "isnan _ = False"

text \<open>
  Python's built-in \<open>min(a, b)\<close> and \<open>max(a, b)\<close>: the first argument is kept unless
  the second is strictly smaller (strictly greater). With a NaN second argument the
  comparison is false and the first argument is returned.
\<close>

definition py_min :: "pyfloat \<Rightarrow> pyfloat \<Rightarrow> pyfloat" where
  "py_min a b = (if flt b a then b else a)"

definition py_max :: "pyfloat \<Rightarrow> pyfloat \<Rightarrow> pyfloat" where
  "py_max a b = (if flt a b then b else a)"

text \<open>\<open>x or 0.0\<close> on a float: zero is falsy, every other float (NaN too) is truthy.\<close>

fun float_or_zero :: "pyfloat \<Rightarrow> pyfloat" where
  "float_or_zero (Fin a) = (if a = 0 then Fin 0 else Fin a)"
| "float_or_zero x = x"


text \<open>
  Text is a list of 8-bit characters, read as ASCII. \<open>str.lower()\<close> maps the letters
  A to Z (65 to 90) to a to z: an upper-case letter has bit 5 clear, and setting it adds 32.
  \<open>str.strip()\<close> removes leading and trailing white space (the ASCII characters 9 to 13
  and 28 to 32). Case mapping and white space beyond ASCII are outside the model.
\<close>

fun lower_char :: "char \<Rightarrow> char" where
  "lower_char (Char b0 b1 b2 b3 b4 b5 b6 b7) =
     (let n = (of_char (Char b0 b1 b2 b3 b4 b5 b6 b7) :: nat)
      in if 65 \<le> n \<and> n \<le> 90 then Char b0 b1 b2 b3 b4 True b6 b7
         else Char b0 b1 b2 b3 b4 b5 b6 b7)"

definition lower :: "string \<Rightarrow> string" where
  "lower s = map lower_char s"

definition is_space :: "char \<Rightarrow> bool" where
  "is_space c = (let n = (of_char c :: nat) in (9 \<le> n \<and> n \<le> 13) \<or> (28 \<le> n \<and> n \<le> 32))"

definition strip :: "string \<Rightarrow> string" where
  "strip s = rev (dropWhile is_space (rev (dropWhile is_space s)))"

text \<open>\<open>t in s\<close> on strings: \<open>t\<close> occurs in \<open>s\<close> as a contiguous piece.\<close>

fun py_in :: "string \<Rightarrow> string \<Rightarrow> bool" where
  "py_in t [] = (t = [])"
| "py_in t (c # s) = (take (length t) (c # s) = t \<or> py_in t s)"

text \<open>\<open>sep.join(items)\<close>.\<close>

fun join :: "string \<Rightarrow> string list \<Rightarrow> string" where
  "join sep [] = []"
| "join sep [x] = x"
| "join sep (x # y # ys) = x @ sep @ join sep (y # ys)"

text \<open>
  The cells of a property record. A numeric cell is \<open>None\<close>, the float NaN (how pandas
  and the loader's \<open>_num\<close> write a missing number) or a finite number; numeric cells hold no
  text and no infinity. A text cell is \<open>None\<close> or a string, a flag \<open>None\<close> or a bool,
  a list cell \<open>None\<close> or a list of strings.

  The sale date is a string in the source, read by \<open>pd.to_datetime\<close>, a library function.
  The model keeps, in place of the characters, what the library makes of them: the empty
  string, a text it rejects with an exception, a value it reads as the missing timestamp
  NaT (the strings \<open>NaT\<close> and \<open>nan\<close>, and a float NaN in the cell, which is truthy), or
  a text it parses to a date.
\<close>

datatype numcell = NoneNum | NanNum | Num real

datatype datetext = EmptyText | BadText | NaTText | DateText int int int

datatype py_error = KeyError | TypeError

text \<open>The values of an explanation payload; ints and floats are not told apart.\<close>

datatype pyobj =
    ONone
  | ONum pyfloat
  | OStr string
  | OBool bool
  | OTuple "pyobj list"
  | ODict "(string \<times> pyobj) list"

type_synonym detail = "(string \<times> pyobj) list"

text \<open>
  A property record (a pandas Series in the source). The selector \<open>get_k\<close> stands for
  \<open>record.get('k')\<close>; an absent key reads as \<open>None\<close>.
\<close>

record series =
  get_address :: "string option"
  get_sale_price :: numcell
  get_sale_date :: "datetext option"
  get_hoa_fee :: numcell
  get_neighborhood :: "string option"
  get_subdivision :: "string option"
  get_school_district :: "string option"
  get_avg_school_rating :: numcell
  get_waterfront :: "string option"
  get_lot_sqft :: numcell
  get_fencing :: "string option"
  get_lot_features_text :: "string option"
  get_year_built :: numcell
  get_style :: "string option"
  get_construction_materials :: "string option"
  get_foundation_details :: "string option"
  get_roof :: "string option"
  get_gla :: numcell
  get_above_grade_size :: numcell
  get_below_grade_size :: numcell
  get_beds :: numcell
  get_baths :: numcell
  get_stories :: numcell
  get_property_condition_label :: "string option"
  get_flooring :: "string option"
  get_interior_features :: "string list option"
  get_parking_desc :: "string option"
  get_cooling :: "string option"
  get_natural_gas_connected :: "bool option"
  get_garage_spaces :: numcell
  get_solar :: "bool option"
  get_electric_pv_on_grid :: "bool option"

text \<open>
  The comparables (a pandas DataFrame in the source): the labels of its columns and its
  rows, in order. The engine indexes two columns by label, \<open>sale_price\<close> and \<open>gla\<close>,
  which raises \<open>KeyError\<close> when the column is absent; every other read is \<open>row.get\<close>.
  A numeric column that pandas builds from numbers is a float column, with NaN for a
  missing value. A \<open>None\<close> cell stands in a column of Python objects, for instance one
  built from \<open>None\<close> alone.
\<close>

record dataframe =
  columns :: "string list"
  rows :: "series list"

section \<open>policy.py\<close>

record CostAssumptions =
  lot_psf :: real
  fence_token :: real
  site_pos_pct :: real
  site_neg_pct :: real
  age_per_year :: real
  style_token :: real
  construction_token :: real
  foundation_token :: real
  roof_token :: real
  gla_factor_psf :: real
  above_grade_psf :: real
  below_grade_finished_psf :: real
  below_grade_unfinished_psf :: real
  v_bed :: real
  v_bath_full :: real
  v_bath_half :: real
  v_story :: real
  quality_pct_per_step :: real
  condition_pct_per_step :: real
  interior_token :: real
  fireplace_each :: real
  hvac_central_bonus :: real
  whole_house_fan_bonus :: real
  multi_unit_cooling_bonus :: real
  solar_contrib :: real
  natural_gas_bonus :: real
  pv_on_grid_bonus :: real
  garage_space_value :: real
  patio_pkg :: real
  deck_pkg :: real
  porch_pkg :: real
  monthly_market_trend_pct :: real
  hoa_years_capitalized :: real
  different_neighborhood_pct :: real
  different_subdivision_pct :: real
  different_school_district_pct :: real
  school_rating_pct_per_point :: real
  waterfront_pct :: real
  building_share :: real

record AdjustmentPolicy =
  line_cap_pct :: real
  total_cap_pct :: real
  market_each_cap :: real
  market_total_cap :: real

text \<open>The dataclasses' defaults.\<close>

definition default_costs :: CostAssumptions where
  "default_costs = \<lparr>
     lot_psf = 3, fence_token = 1500, site_pos_pct = 0.01, site_neg_pct = - 0.02,
     age_per_year = 600, style_token = 1500, construction_token = 1200,
     foundation_token = 1000, roof_token = 1000,
     gla_factor_psf = 0.35, above_grade_psf = 40, below_grade_finished_psf = 50,
     below_grade_unfinished_psf = 15, v_bed = 9000, v_bath_full = 12000,
     v_bath_half = 6000, v_story = 3000,
     quality_pct_per_step = 0.04, condition_pct_per_step = 0.025,
     interior_token = 1000, fireplace_each = 6000,
     hvac_central_bonus = 2000, whole_house_fan_bonus = 800,
     multi_unit_cooling_bonus = 1200, solar_contrib = 10000, natural_gas_bonus = 1500,
     pv_on_grid_bonus = 2000, garage_space_value = 25000, patio_pkg = 4000,
     deck_pkg = 5000, porch_pkg = 3000,
     monthly_market_trend_pct = 0.0025, hoa_years_capitalized = 1,
     different_neighborhood_pct = - 0.01, different_subdivision_pct = - 0.005,
     different_school_district_pct = - 0.005, school_rating_pct_per_point = 0.002,
     waterfront_pct = 0.03,
     building_share = 0.60 \<rparr>"

definition default_policy :: AdjustmentPolicy where
  "default_policy = \<lparr> line_cap_pct = 0.09, total_cap_pct = 0.27,
     market_each_cap = 0.03, market_total_cap = 0.05 \<rparr>"

section \<open>utils.py\<close>

definition POS_SITE_TOKENS :: "string list" where
  "POS_SITE_TOKENS = [''cul-de-sac'', ''park'', ''view'', ''greenbelt'', ''waterfront'', ''backs to open'']"

definition NEG_SITE_TOKENS :: "string list" where
  "NEG_SITE_TOKENS = [''busy road'', ''highway'', ''arterial'', ''rail'', ''industrial'',
     ''power line'', ''slope'', ''steep'']"

text \<open>\<open>txt(x)\<close>: \<open>''\<close> for \<open>None\<close>, else the stripped string.\<close>

fun "txt" :: "string option \<Rightarrow> string" where
  "txt None = []"
| "txt (Some x) = strip x"

text \<open>
  \<open>num(x)\<close>: NaN for \<open>None\<close>, the float itself otherwise. The branch that parses text is
  not reached: a numeric cell holds no string.
\<close>

fun num :: "numcell \<Rightarrow> pyfloat" where
  "num NoneNum = NaN"
| "num NanNum = NaN"
| "num (Num x) = Fin x"

text \<open>
  \<open>pd.to_datetime(d)\<close>, as far as the engine reads it: the \<open>year\<close> and the \<open>month\<close> of
  the result, or \<open>None\<close> where the library raises. Both attributes of NaT are the float
  NaN. The empty string is never passed: \<open>not d\<close> returns before.
\<close>

fun to_datetime :: "datetext \<Rightarrow> (pyfloat \<times> pyfloat) option" where
  "to_datetime (DateText y m d) = Some (Fin (real_of_int y), Fin (real_of_int m))"
| "to_datetime NaTText = Some (NaN, NaN)"
| "to_datetime EmptyText = Some (NaN, NaN)"
| "to_datetime BadText = None"

text \<open>\<open>not d\<close> on a date cell: \<open>None\<close> and the empty string are falsy.\<close>

fun not_date :: "datetext option \<Rightarrow> bool" where
  "not_date None = True"
| "not_date (Some EmptyText) = True"
| "not_date (Some _) = False"

text \<open>
  \<open>months_between\<close>. With a NaT on either side the difference is NaN, \<open>min(120.0, nan)\<close>
  keeps its first argument, and the result is 120.
\<close>

definition months_between :: "datetext option \<Rightarrow> datetext option \<Rightarrow> pyfloat" where
  "months_between d1 d2 =
     (if not_date d1 \<or> not_date d2 then Fin 0
      else case (d1, d2) of
             (Some a, Some b) \<Rightarrow>
               (case (to_datetime a, to_datetime b) of
                  (Some (ya, ma), Some (yb, mb)) \<Rightarrow>
                    py_max (Fin (- 120))
                      (py_min (Fin 120) (fadd (fmul (fsub ya yb) (Fin 12)) (fsub ma mb)))
                | _ \<Rightarrow> Fin 0)
           | _ \<Rightarrow> Fin 0)"

definition site_token_score :: "string \<Rightarrow> real" where
  "site_token_score s0 =
     (let s = lower (txt (Some s0));
          score = fold (\<lambda>t score. if py_in t s then score + 1 else score) POS_SITE_TOKENS 0
      in fold (\<lambda>t score. if py_in t s then score - 1 else score) NEG_SITE_TOKENS score)"

text \<open>The idioms \<open>x or ''\<close>, \<open>x or []\<close>, \<open>x or 0.0\<close>, \<open>bool(x)\<close> and \<open>pd.notna(x)\<close> on cells.\<close>

fun str_or_empty :: "string option \<Rightarrow> string" where
  "str_or_empty None = []"
| "str_or_empty (Some s) = s"

fun list_or_empty :: "string list option \<Rightarrow> string list" where
  "list_or_empty None = []"
| "list_or_empty (Some xs) = xs"

fun num_or_zero :: "numcell \<Rightarrow> pyfloat" where
  "num_or_zero NoneNum = Fin 0"
| "num_or_zero NanNum = NaN"
| "num_or_zero (Num x) = float_or_zero (Fin x)"

fun py_bool :: "bool option \<Rightarrow> bool" where
  "py_bool None = False"
| "py_bool (Some b) = b"

fun notna :: "numcell \<Rightarrow> bool" where
  "notna (Num _) = True"
| "notna _ = False"

text \<open>
  \<open>np.nanmedian\<close> and the pandas \<open>median()\<close> (which skips NaN by default): the NaN
  entries are dropped, the rest is sorted, and the result is the middle entry, or the mean
  of the two middle entries; NaN when nothing is left.
\<close>

fun finsert :: "pyfloat \<Rightarrow> pyfloat list \<Rightarrow> pyfloat list" where
  "finsert x [] = [x]"
| "finsert x (y # ys) = (if flt y x then y # finsert x ys else x # y # ys)"

definition fsort :: "pyfloat list \<Rightarrow> pyfloat list" where
  "fsort xs = foldr finsert xs []"

definition nanmedian :: "pyfloat list \<Rightarrow> pyfloat" where
  "nanmedian xs =
     (let v = fsort (filter (\<lambda>x. \<not> isnan x) xs); n = length v
      in if n = 0 then NaN
         else if odd n then v ! (n div 2)
         else fdiv (fadd (v ! (n div 2 - 1)) (v ! (n div 2))) (Fin 2))"


section \<open>adjustments/transactional.py\<close>

text \<open>
  Every rule returns the pair of the source: the adjustment and the explanation payload
  (\<open>gla\<close>, which can raise, returns the pair or the error).
  The comparable, \<open>comp\<close> in the source, is \<open>cmp\<close> here (\<open>comp\<close> is HOL's composition
  of functions).
\<close>

definition sale_date :: "series \<Rightarrow> series \<Rightarrow> CostAssumptions \<Rightarrow> pyfloat \<Rightarrow> pyfloat \<times> detail" where
  "sale_date subject cmp costs indicated_value =
     (let subj_date = get_sale_date subject;
          comp_date = get_sale_date cmp;
          m = months_between subj_date comp_date;
          pct = fmul (fneg m) (Fin (monthly_market_trend_pct costs));
          adj = fmul (num_or_zero (get_sale_price cmp)) pct
      in (adj, [(''months_diff'', ONum m),
                (''pct_per_month'', ONum (Fin (monthly_market_trend_pct costs))),
                (''pct_total'', ONum pct)]))"

definition hoa_fee :: "series \<Rightarrow> series \<Rightarrow> CostAssumptions \<Rightarrow> pyfloat \<times> detail" where
  "hoa_fee subject cmp costs =
     (let s = num (get_hoa_fee subject);
          c = num (get_hoa_fee cmp)
      in if isnan s \<or> isnan c
         then (Fin 0, [(''subject_hoa'', ONone), (''comp_hoa'', ONone),
                       (''months_capitalized'', ONum (Fin 12))])
         else let years = hoa_years_capitalized costs;
                  months = 12 * years;
                  delta = fmul (fsub s c) (Fin months)
              in (delta, [(''subject_hoa'', ONum s), (''comp_hoa'', ONum c),
                          (''months_capitalized'', ONum (Fin months))]))"

section \<open>adjustments/location\_edu\_waterfront.py\<close>

text \<open>
  The running percentage and the explanation dict are threaded through the source's five
  steps as a pair.
\<close>

definition location_school_water ::
    "series \<Rightarrow> series \<Rightarrow> CostAssumptions \<Rightarrow> pyfloat \<Rightarrow> pyfloat \<times> detail" where
  "location_school_water subject cmp costs indicated_value =
     (let st0 = (0 :: real, [] :: detail);
          st1 = (if str_or_empty (get_neighborhood subject) = str_or_empty (get_neighborhood cmp)
                 then st0
                 else (fst st0 + different_neighborhood_pct costs,
                       snd st0 @ [(''neighborhood_delta'', ONum (Fin (different_neighborhood_pct costs)))]));
          st2 = (if str_or_empty (get_subdivision subject) = str_or_empty (get_subdivision cmp)
                 then st1
                 else (fst st1 + different_subdivision_pct costs,
                       snd st1 @ [(''subdivision_delta'', ONum (Fin (different_subdivision_pct costs)))]));
          st3 = (if str_or_empty (get_school_district subject) = str_or_empty (get_school_district cmp)
                 then st2
                 else (fst st2 + different_school_district_pct costs,
                       snd st2 @ [(''school_district_delta'', ONum (Fin (different_school_district_pct costs)))]));
          s_avg = get_avg_school_rating subject;
          c_avg = get_avg_school_rating cmp;
          st4 = (case (s_avg, c_avg) of
                   (Num a, Num b) \<Rightarrow>
                     (fst st3 + (a - b) * school_rating_pct_per_point costs,
                      snd st3 @ [(''school_rating_diff'', ONum (Fin (a - b)))])
                 | _ \<Rightarrow> st3);
          s_w = lower (strip (str_or_empty (get_waterfront subject)));
          c_w = lower (strip (str_or_empty (get_waterfront cmp)));
          st5 = (if (s_w = []) = (c_w = [])
                 then st4
                 else (fst st4 + (if s_w = [] then - waterfront_pct costs else waterfront_pct costs),
                       snd st4 @ [(''waterfront'', OTuple [OBool (s_w \<noteq> []), OBool (c_w \<noteq> [])])]));
          pct = fst st5;
          adj = fmul (num_or_zero (get_sale_price cmp)) (Fin pct)
      in (adj, snd st5 @ [(''pct_total'', ONum (Fin pct))]))"

section \<open>adjustments/site.py\<close>

definition lot_size :: "series \<Rightarrow> series \<Rightarrow> CostAssumptions \<Rightarrow> pyfloat \<times> detail" where
  "lot_size subject cmp costs =
     (let s = num (get_lot_sqft subject);
          c = num (get_lot_sqft cmp);
          d = (if isnan s \<or> isnan c then Fin 0 else fsub s c);
          adj = fmul d (Fin (lot_psf costs))
      in (adj, [(''delta_sqft'', ONum d), (''lot_psf'', ONum (Fin (lot_psf costs)))]))"

definition lot_features_fencing :: "series \<Rightarrow> series \<Rightarrow> CostAssumptions \<Rightarrow> pyfloat \<times> detail" where
  "lot_features_fencing subject cmp costs =
     (let desc_s = str_or_empty (get_fencing subject) @ '' | '' @ str_or_empty (get_lot_features_text subject);
          desc_c = str_or_empty (get_fencing cmp) @ '' | '' @ str_or_empty (get_lot_features_text cmp);
          sc_s = site_token_score desc_s;
          sc_c = site_token_score desc_c;
          d = sc_s - sc_c;
          adj = d * fence_token costs
      in (Fin adj, [(''subject_score'', ONum (Fin sc_s)), (''comp_score'', ONum (Fin sc_c)),
                    (''delta_score'', ONum (Fin d)), (''token_value'', ONum (Fin (fence_token costs)))]))"

section \<open>adjustments/structure.py\<close>

definition age_year_built :: "series \<Rightarrow> series \<Rightarrow> CostAssumptions \<Rightarrow> pyfloat \<times> detail" where
  "age_year_built subject cmp costs =
     (let s = num (get_year_built subject);
          c = num (get_year_built cmp)
      in if isnan s \<or> isnan c then (Fin 0, [(''note'', OStr ''missing year_built'')])
         else let d_years = fsub s c;
                  adj = fmul d_years (Fin (age_per_year costs))
              in (adj, [(''delta_years'', ONum d_years), (''per_year'', ONum (Fin (age_per_year costs)))]))"

definition style :: "series \<Rightarrow> series \<Rightarrow> CostAssumptions \<Rightarrow> pyfloat \<times> detail" where
  "style subject cmp costs =
     (let s = lower (str_or_empty (get_style subject));
          c = lower (str_or_empty (get_style cmp))
      in if s = c \<or> s = [] \<or> c = [] then (Fin 0, [(''note'', OStr ''same or missing style'')])
         else (Fin (style_token costs),
               [(''subject'', OStr s), (''comp'', OStr c), (''token'', ONum (Fin (style_token costs)))]))"

definition construction :: "series \<Rightarrow> series \<Rightarrow> CostAssumptions \<Rightarrow> pyfloat \<times> detail" where
  "construction subject cmp costs =
     (let s = lower (str_or_empty (get_construction_materials subject));
          c = lower (str_or_empty (get_construction_materials cmp))
      in if s = c \<or> s = [] \<or> c = [] then (Fin 0, [(''note'', OStr ''same or missing'')])
         else (Fin (construction_token costs),
               [(''subject'', OStr s), (''comp'', OStr c), (''token'', ONum (Fin (construction_token costs)))]))"

definition foundation :: "series \<Rightarrow> series \<Rightarrow> CostAssumptions \<Rightarrow> pyfloat \<times> detail" where
  "foundation subject cmp costs =
     (let s = lower (str_or_empty (get_foundation_details subject));
          c = lower (str_or_empty (get_foundation_details cmp))
      in if s = c \<or> s = [] \<or> c = [] then (Fin 0, [(''note'', OStr ''same or missing'')])
         else (Fin (foundation_token costs),
               [(''subject'', OStr s), (''comp'', OStr c), (''token'', ONum (Fin (foundation_token costs)))]))"

definition roof :: "series \<Rightarrow> series \<Rightarrow> CostAssumptions \<Rightarrow> pyfloat \<times> detail" where
  "roof subject cmp costs =
     (let s = lower (str_or_empty (get_roof subject));
          c = lower (str_or_empty (get_roof cmp))
      in if s = c \<or> s = [] \<or> c = [] then (Fin 0, [(''note'', OStr ''same or missing'')])
         else (Fin (roof_token costs),
               [(''subject'', OStr s), (''comp'', OStr c), (''token'', ONum (Fin (roof_token costs)))]))"


section \<open>adjustments/rooms\_size.py\<close>

text \<open>
  \<open>_market_psf\<close>. \<open>comps[['sale_price','gla']]\<close> raises \<open>KeyError\<close> when either column is
  absent. Otherwise: the rows with both a sale price and a living area (\<open>dropna\<close> drops
  \<open>None\<close> and NaN alike), the price per square foot of each, and the median of those.
\<close>

definition market_psf :: "dataframe \<Rightarrow> py_error + pyfloat" where
  "market_psf comps =
     (if ''sale_price'' \<in> set (columns comps) \<and> ''gla'' \<in> set (columns comps)
      then (let v = filter (\<lambda>r. notna (get_sale_price r) \<and> notna (get_gla r)) (rows comps)
            in if v = [] then Inr (Fin 0)
               else Inr (nanmedian (map (\<lambda>r. fdiv (num (get_sale_price r)) (num (get_gla r))) v)))
      else Inl KeyError)"

text \<open>\<open>gla\<close> is the one rule that can raise: it passes on the error of \<open>_market_psf\<close>.\<close>

definition gla ::
    "series \<Rightarrow> series \<Rightarrow> dataframe \<Rightarrow> CostAssumptions \<Rightarrow> py_error + (pyfloat \<times> detail)" where
  "gla subject cmp comps_df costs =
     (case market_psf comps_df of
        Inl e \<Rightarrow> Inl e
      | Inr base_psf \<Rightarrow>
          let rate = fmul base_psf (Fin (gla_factor_psf costs));
              s = num (get_gla subject);
              c = num (get_gla cmp);
              d = (if isnan s \<or> isnan c then Fin 0 else fsub s c)
          in Inr (fmul d rate,
                  [(''delta_sqft'', ONum d), (''rate_psf'', ONum rate), (''market_psf'', ONum base_psf)]))"

definition above_grade :: "series \<Rightarrow> series \<Rightarrow> CostAssumptions \<Rightarrow> pyfloat \<times> detail" where
  "above_grade subject cmp costs =
     (let s = num (get_above_grade_size subject);
          c = num (get_above_grade_size cmp)
      in if isnan s \<or> isnan c then (Fin 0, [(''note'', OStr ''missing above_grade_size'')])
         else let d = fsub s c
              in (fmul d (Fin (above_grade_psf costs)),
                  [(''delta_sqft'', ONum d), (''rate_psf'', ONum (Fin (above_grade_psf costs)))]))"

definition below_grade :: "series \<Rightarrow> series \<Rightarrow> CostAssumptions \<Rightarrow> pyfloat \<times> detail" where
  "below_grade subject cmp costs =
     (let s = num (get_below_grade_size subject);
          c = num (get_below_grade_size cmp)
      in if isnan s \<or> isnan c then (Fin 0, [(''note'', OStr ''missing below_grade_size'')])
         else let d = fsub s c;
                  blended = 0.5 * below_grade_finished_psf costs + 0.5 * below_grade_unfinished_psf costs
              in (fmul d (Fin blended), [(''delta_sqft'', ONum d), (''rate_psf'', ONum (Fin blended))]))"

definition bedrooms :: "series \<Rightarrow> series \<Rightarrow> CostAssumptions \<Rightarrow> pyfloat \<times> detail" where
  "bedrooms subject cmp costs =
     (let s = num (get_beds subject);
          c = num (get_beds cmp)
      in if isnan s \<or> isnan c then (Fin 0, [(''note'', OStr ''missing beds'')])
         else let d = fsub s c
              in (fmul d (Fin (v_bed costs)),
                  [(''delta_beds'', ONum d), (''per_bed'', ONum (Fin (v_bed costs)))]))"

definition bathrooms :: "series \<Rightarrow> series \<Rightarrow> CostAssumptions \<Rightarrow> pyfloat \<times> detail" where
  "bathrooms subject cmp costs =
     (let s_baths0 = num (get_baths subject);
          c_baths0 = num (get_baths cmp);
          s_baths = (if isnan s_baths0 then Fin 0 else s_baths0);
          c_baths = (if isnan c_baths0 then Fin 0 else c_baths0);
          delta = fsub s_baths c_baths;
          adj = fmul delta (Fin (v_bath_full costs))
      in (adj, [(''delta_baths'', ONum delta), (''per_bath'', ONum (Fin (v_bath_full costs)))]))"

definition stories :: "series \<Rightarrow> series \<Rightarrow> CostAssumptions \<Rightarrow> pyfloat \<times> detail" where
  "stories subject cmp costs =
     (let s = num (get_stories subject);
          c = num (get_stories cmp)
      in if isnan s \<or> isnan c then (Fin 0, [(''note'', OStr ''missing stories'')])
         else let d = fsub s c
              in (fmul d (Fin (v_story costs)),
                  [(''delta_stories'', ONum d), (''per_story'', ONum (Fin (v_story costs)))]))"

section \<open>adjustments/condition\_interior.py\<close>

text \<open>The keyword tables, in the order of the source's dict literals.\<close>

definition Q_MAP :: "(string \<times> int) list" where
  "Q_MAP = [(''luxury'', 2), (''custom'', 3), (''excellent'', 2), (''above average'', 3),
            (''average'', 4), (''economy'', 5), (''basic'', 6)]"

definition C_MAP :: "(string \<times> int) list" where
  "C_MAP = [(''new'', 2), (''excellent'', 2), (''renovated'', 3), (''updated'', 3), (''good'', 3),
            (''average'', 4), (''typical'', 4), (''outdated'', 5), (''fair'', 5), (''poor'', 6)]"

text \<open>The loop of \<open>_q_from_text\<close> and \<open>_c_from_text\<close>: the value of the first key found in the text.\<close>

fun first_match :: "(string \<times> int) list \<Rightarrow> string \<Rightarrow> int option" where
  "first_match [] s = None"
| "first_match ((k, v) # kvs) s = (if py_in k s then Some v else first_match kvs s)"

definition q_from_text :: "string option \<Rightarrow> int option" where
  "q_from_text style_text = first_match Q_MAP (lower (txt style_text))"

definition c_from_text :: "string option \<Rightarrow> int option" where
  "c_from_text cond_text = first_match C_MAP (lower (txt cond_text))"

text \<open>\<open>x or 4\<close> on an optional int: \<open>None\<close> and 0 are falsy.\<close>

fun int_or :: "int option \<Rightarrow> int \<Rightarrow> int" where
  "int_or None d = d"
| "int_or (Some v) d = (if v = 0 then d else v)"

definition quality :: "series \<Rightarrow> series \<Rightarrow> CostAssumptions \<Rightarrow> pyfloat \<Rightarrow> pyfloat \<times> detail" where
  "quality subject cmp costs indicated_value =
     (let qs = int_or (q_from_text (get_style subject)) 4;
          qc = int_or (q_from_text (get_style cmp)) 4;
          steps = qs - qc;
          bldg_val = fmul indicated_value (Fin 0.60);
          adj = fmul (Fin (real_of_int (- steps) * quality_pct_per_step costs)) bldg_val
      in (adj, [(''Q_subject'', ONum (Fin (real_of_int qs))), (''Q_comp'', ONum (Fin (real_of_int qc))),
                (''steps'', ONum (Fin (real_of_int steps))),
                (''pct_per_step'', ONum (Fin (quality_pct_per_step costs))),
                (''building_basis'', ONum bldg_val)]))"

definition condition :: "series \<Rightarrow> series \<Rightarrow> CostAssumptions \<Rightarrow> pyfloat \<Rightarrow> pyfloat \<times> detail" where
  "condition subject cmp costs indicated_value =
     (let cs = int_or (c_from_text (get_property_condition_label subject)) 4;
          cc = int_or (c_from_text (get_property_condition_label cmp)) 4;
          steps = cs - cc;
          bldg_val = fmul indicated_value (Fin 0.60);
          adj = fmul (Fin (real_of_int (- steps) * condition_pct_per_step costs)) bldg_val
      in (adj, [(''C_subject'', ONum (Fin (real_of_int cs))), (''C_comp'', ONum (Fin (real_of_int cc))),
                (''steps'', ONum (Fin (real_of_int steps))),
                (''pct_per_step'', ONum (Fin (condition_pct_per_step costs))),
                (''building_basis'', ONum bldg_val)]))"

definition flooring_score :: "string option \<Rightarrow> int" where
  "flooring_score s0 =
     (let s = lower (txt s0);
          sc0 = 0;
          sc1 = (if py_in ''hardwood'' s \<or> py_in ''wood'' s then sc0 + 2 else sc0);
          sc2 = (if py_in ''tile'' s then sc1 + 1 else sc1);
          sc3 = (if py_in ''vinyl'' s then sc2 - 1 else sc2);
          sc4 = (if py_in ''carpet'' s then sc3 - 1 else sc3)
      in sc4)"

definition flooring :: "series \<Rightarrow> series \<Rightarrow> CostAssumptions \<Rightarrow> pyfloat \<times> detail" where
  "flooring subject cmp costs =
     (let ss = flooring_score (get_flooring subject);
          cs = flooring_score (get_flooring cmp);
          d = ss - cs
      in (Fin (real_of_int d * interior_token costs),
          [(''subject_score'', ONum (Fin (real_of_int ss))), (''comp_score'', ONum (Fin (real_of_int cs))),
           (''delta'', ONum (Fin (real_of_int d))), (''token'', ONum (Fin (interior_token costs)))]))"

definition PREMIUM :: "string list" where
  "PREMIUM = [''cathedral'', ''vaulted'', ''open beam'', ''skylight'', ''skylight tube'']"

definition interior_features :: "series \<Rightarrow> series \<Rightarrow> CostAssumptions \<Rightarrow> pyfloat \<times> detail" where
  "interior_features subject cmp costs =
     (let s_list = list_or_empty (get_interior_features subject);
          c_list = list_or_empty (get_interior_features cmp);
          s_txt = join '' | '' (map (\<lambda>x. lower (txt (Some x))) s_list);
          c_txt = join '' | '' (map (\<lambda>x. lower (txt (Some x))) c_list);
          sc = (\<lambda>t. int (length (filter (\<lambda>k. py_in k t) PREMIUM)));
          ss = sc s_txt;
          cs = sc c_txt;
          d = ss - cs
      in (Fin (real_of_int d * interior_token costs),
          [(''subject_score'', ONum (Fin (real_of_int ss))), (''comp_score'', ONum (Fin (real_of_int cs))),
           (''delta'', ONum (Fin (real_of_int d))), (''token'', ONum (Fin (interior_token costs)))]))"

definition has_fireplace :: "string list option \<Rightarrow> string option \<Rightarrow> bool" where
  "has_fireplace items extra_text =
     (let s = join '' | '' (map (\<lambda>x. lower (txt (Some x))) (list_or_empty items))
              @ '' | '' @ lower (txt extra_text)
      in py_in ''fireplace'' s \<or> py_in ''fire place'' s \<or> py_in ''woodburn'' s)"

definition fireplace :: "series \<Rightarrow> series \<Rightarrow> CostAssumptions \<Rightarrow> pyfloat \<times> detail" where
  "fireplace subject cmp costs =
     (let s_fp = (if has_fireplace (get_interior_features subject) (get_parking_desc subject) then 1 else 0 :: int);
          c_fp = (if has_fireplace (get_interior_features cmp) (get_parking_desc cmp) then 1 else 0 :: int);
          d = s_fp - c_fp
      in (Fin (real_of_int d * fireplace_each costs),
          [(''subject_fireplace'', OBool (s_fp \<noteq> 0)), (''comp_fireplace'', OBool (c_fp \<noteq> 0)),
           (''delta'', ONum (Fin (real_of_int d))), (''each'', ONum (Fin (fireplace_each costs)))]))"


section \<open>adjustments/amenities\_utilities.py\<close>

text \<open>The local function \<open>sc\<close> of \<open>cooling\<close>.\<close>

definition cooling_score :: "CostAssumptions \<Rightarrow> string \<Rightarrow> real" where
  "cooling_score costs v =
     (let score0 = 0;
          score1 = (if py_in ''central'' v then score0 + hvac_central_bonus costs else score0);
          score2 = (if py_in ''whole house fan'' v then score1 + whole_house_fan_bonus costs else score1);
          score3 = (if py_in ''multi'' v \<or> py_in ''multiunits'' v
                    then score2 + multi_unit_cooling_bonus costs else score2);
          score4 = (if py_in ''wall unit'' v \<or> py_in ''window unit'' v then score3 - 500 else score3)
      in score4)"

definition cooling :: "series \<Rightarrow> series \<Rightarrow> CostAssumptions \<Rightarrow> pyfloat \<times> detail" where
  "cooling subject cmp costs =
     (let s = lower (txt (get_cooling subject));
          c = lower (txt (get_cooling cmp));
          adj = cooling_score costs s - cooling_score costs c
      in (Fin adj, [(''subject'', OStr s), (''comp'', OStr c)]))"

definition heating :: "series \<Rightarrow> series \<Rightarrow> CostAssumptions \<Rightarrow> pyfloat \<times> detail" where
  "heating subject cmp costs =
     (let s_ng = py_bool (get_natural_gas_connected subject);
          c_ng = py_bool (get_natural_gas_connected cmp);
          d = (if s_ng then 1 else 0) - (if c_ng then 1 else 0 :: int)
      in (Fin (real_of_int d * natural_gas_bonus costs),
          [(''subject_gas'', OBool s_ng), (''comp_gas'', OBool c_ng),
           (''bonus_each'', ONum (Fin (natural_gas_bonus costs)))]))"

definition garage_parking :: "series \<Rightarrow> series \<Rightarrow> CostAssumptions \<Rightarrow> pyfloat \<times> detail" where
  "garage_parking subject cmp costs =
     (let s0 = num (get_garage_spaces subject);
          c0 = num (get_garage_spaces cmp);
          s = (if isnan s0 then Fin 0 else s0);
          c = (if isnan c0 then Fin 0 else c0);
          d = fsub s c
      in (fmul d (Fin (garage_space_value costs)),
          [(''delta_spaces'', ONum d), (''per_space'', ONum (Fin (garage_space_value costs)))]))"

text \<open>One turn of the loop of \<open>porch_deck_patio\<close> over its three tokens.\<close>

definition outdoor_step ::
    "string \<Rightarrow> string \<Rightarrow> string \<times> real \<times> string \<Rightarrow> real \<times> detail \<Rightarrow> real \<times> detail" where
  "outdoor_step s c item st =
     (case item of (token, pkg, name) \<Rightarrow>
        let sv = py_in token (lower s);
            cv = py_in token (lower c);
            d = (if sv then 1 else 0) - (if cv then 1 else 0 :: int)
        in (fst st + real_of_int d * pkg,
            snd st @ [(name, ODict [(''subject'', OBool sv), (''comp'', OBool cv),
                                    (''delta'', ONum (Fin (real_of_int d))), (''pkg'', ONum (Fin pkg))])]))"

definition porch_deck_patio :: "series \<Rightarrow> series \<Rightarrow> CostAssumptions \<Rightarrow> pyfloat \<times> detail" where
  "porch_deck_patio subject cmp costs =
     (let s = txt (get_lot_features_text subject);
          c = txt (get_lot_features_text cmp);
          st = fold (outdoor_step s c)
                 [(''porch'', porch_pkg costs, ''porch''),
                  (''patio'', patio_pkg costs, ''patio''),
                  (''deck'', deck_pkg costs, ''deck'')]
                 (0, [])
      in (Fin (fst st), snd st))"

definition energy_utilities :: "series \<Rightarrow> series \<Rightarrow> CostAssumptions \<Rightarrow> pyfloat \<times> detail" where
  "energy_utilities subject cmp costs =
     (let s_solar = py_bool (get_solar subject);
          c_solar = py_bool (get_solar cmp);
          s_pv = py_bool (get_electric_pv_on_grid subject);
          c_pv = py_bool (get_electric_pv_on_grid cmp);
          d0 = (if s_solar then 1 else 0) - (if c_solar then 1 else 0 :: int);
          d = d0 + ((if s_pv then 1 else 0) - (if c_pv then 1 else 0));
          adj = real_of_int d * (0.5 * solar_contrib costs + 0.5 * pv_on_grid_bonus costs)
      in (Fin adj, [(''subject_solar'', OBool s_solar), (''comp_solar'', OBool c_solar),
                    (''subject_pv'', OBool s_pv), (''comp_pv'', OBool c_pv)]))"

section \<open>adjustments/external\_placeholders.py\<close>

definition external_market :: "series \<Rightarrow> series \<Rightarrow> pyfloat \<times> detail" where
  "external_market subject cmp =
     (Fin 0, [(''climate'', ONone), (''job'', ONone), (''walk'', ONone), (''transit'', ONone),
              (''unemployment'', ONone), (''crime'', ONone), (''sex_offender'', ONone),
              (''note'', OStr ''no external market data provided'')])"

definition exemptions :: "series \<Rightarrow> series \<Rightarrow> pyfloat \<times> detail" where
  "exemptions subject cmp =
     (Fin 0, [(''exemptions'', ONone), (''note'', OStr ''no exemptions data provided'')])"

section \<open>engine.py\<close>

text \<open>\<open>_cap\<close>; its local \<open>cap\<close> is \<open>window\<close> here, and \<open>base or 0.0\<close> is \<open>float_or_zero\<close>.\<close>

definition cap :: "pyfloat \<Rightarrow> pyfloat \<Rightarrow> real \<Rightarrow> pyfloat" where
  "cap x base pct =
     (let window = fmul (Fin \<bar>pct\<bar>) (float_or_zero base)
      in py_max (fneg window) (py_min window x))"

text \<open>\<open>sum(values)\<close>: Python adds from the left, starting at 0.\<close>

definition py_sum :: "pyfloat list \<Rightarrow> pyfloat" where
  "py_sum xs = foldl fadd (Fin 0) xs"

text \<open>One row of the grid (a dict in the source).\<close>

record grid_row =
  Comparable :: "string option"
  Base_Sale_Price :: pyfloat
  line_items :: "(string \<times> pyfloat) list"
  Net_Adjustment :: pyfloat
  Adjusted_Price :: pyfloat
  META :: "(string \<times> detail) list"

text \<open>
  The body of the loop of \<open>run\<close>, for one comparable, in two parts. \<open>build_row\<close> is the
  body given the result \<open>r_gla\<close> of the call of \<open>gla\<close>: the other 27 rule calls, the capped
  line items in the source's order, the capped net adjustment and the adjusted price.
  \<open>run_row\<close> is the whole body: only the call of \<open>gla\<close> can raise, and the calls before it
  have no effect, so its error is the error of the row.
\<close>

definition build_row ::
    "series \<Rightarrow> AdjustmentPolicy \<Rightarrow> CostAssumptions \<Rightarrow> pyfloat \<Rightarrow> series
      \<Rightarrow> pyfloat \<times> detail \<Rightarrow> grid_row" where
  "build_row subject policy costs indicated_value cmp r_gla =
     (let base = num_or_zero (get_sale_price cmp);
          line_base = py_max base (Fin 1);
          r_time = sale_date subject cmp costs indicated_value;
          r_hoa = hoa_fee subject cmp costs;
          r_loc = location_school_water subject cmp costs indicated_value;
          r_lot = lot_size subject cmp costs;
          r_fence = lot_features_fencing subject cmp costs;
          r_age = age_year_built subject cmp costs;
          r_style = style subject cmp costs;
          r_constr = construction subject cmp costs;
          r_found = foundation subject cmp costs;
          r_roof = roof subject cmp costs;
          r_abv = above_grade subject cmp costs;
          r_blw = below_grade subject cmp costs;
          r_bed = bedrooms subject cmp costs;
          r_bath = bathrooms subject cmp costs;
          r_story = stories subject cmp costs;
          r_qual = quality subject cmp costs indicated_value;
          r_cond = condition subject cmp costs indicated_value;
          r_floor = flooring subject cmp costs;
          r_int = interior_features subject cmp costs;
          r_fp = fireplace subject cmp costs;
          r_cool = cooling subject cmp costs;
          r_heat = heating subject cmp costs;
          r_gar = garage_parking subject cmp costs;
          r_out = porch_deck_patio subject cmp costs;
          r_energy = energy_utilities subject cmp costs;
          r_ext = external_market subject cmp;
          r_exm = exemptions subject cmp;
          items =
            [(''Time (Sale Date)'', cap (fst r_time) line_base (line_cap_pct policy)),
             (''HOA Fees'', cap (fst r_hoa) line_base (line_cap_pct policy)),
             (''Neighborhood/Subdivision/Schools/Waterfront'', cap (fst r_loc) line_base (line_cap_pct policy)),
             (''Lot Size'', cap (fst r_lot) line_base (line_cap_pct policy)),
             (''Lot Features / Fencing'', cap (fst r_fence) line_base (line_cap_pct policy)),
             (''Age / Year Built'', cap (fst r_age) line_base (line_cap_pct policy)),
             (''Style'', cap (fst r_style) line_base (line_cap_pct policy)),
             (''Construction Materials'', cap (fst r_constr) line_base (line_cap_pct policy)),
             (''Foundation'', cap (fst r_found) line_base (line_cap_pct policy)),
             (''Roof'', cap (fst r_roof) line_base (line_cap_pct policy)),
             (''GLA'', cap (fst r_gla) line_base (line_cap_pct policy)),
             (''Above Grade Size'', cap (fst r_abv) line_base (line_cap_pct policy)),
             (''Below Grade Size / Basement'', cap (fst r_blw) line_base (line_cap_pct policy)),
             (''Bedrooms'', cap (fst r_bed) line_base (line_cap_pct policy)),
             (''Bathrooms'', cap (fst r_bath) line_base (line_cap_pct policy)),
             (''Stories'', cap (fst r_story) line_base (line_cap_pct policy)),
             (''Quality (Q)'', cap (fst r_qual) line_base (line_cap_pct policy)),
             (''Condition (C)'', cap (fst r_cond) line_base (line_cap_pct policy)),
             (''Flooring'', cap (fst r_floor) line_base (line_cap_pct policy)),
             (''Interior Features'', cap (fst r_int) line_base (line_cap_pct policy)),
             (''Fireplace'', cap (fst r_fp) line_base (line_cap_pct policy)),
             (''Cooling'', cap (fst r_cool) line_base (line_cap_pct policy)),
             (''Heating'', cap (fst r_heat) line_base (line_cap_pct policy)),
             (''Garage / Parking'', cap (fst r_gar) line_base (line_cap_pct policy)),
             (''Porch / Deck / Patio'', cap (fst r_out) line_base (line_cap_pct policy)),
             (''Energy / Utilities'', cap (fst r_energy) line_base (line_cap_pct policy)),
             (''External Market (placeholders)'', cap (fst r_ext) line_base (line_cap_pct policy)),
             (''Exemptions (placeholders)'', cap (fst r_exm) line_base (line_cap_pct policy))];
          net_phys0 = py_sum (map snd items);
          net_phys = py_max (fmul (Fin (- total_cap_pct policy)) line_base)
                       (py_min (fmul (Fin (total_cap_pct policy)) line_base) net_phys0);
          price_phys = fadd base net_phys
      in \<lparr> Comparable = get_address cmp,
           Base_Sale_Price = base,
           line_items = items,
           Net_Adjustment = net_phys,
           Adjusted_Price = price_phys,
           META =
             [(''META:Time'', snd r_time), (''META:HOA'', snd r_hoa), (''META:Loc'', snd r_loc),
              (''META:Lot'', snd r_lot), (''META:Fencing'', snd r_fence), (''META:Age'', snd r_age),
              (''META:Style'', snd r_style), (''META:Constr'', snd r_constr),
              (''META:Found'', snd r_found), (''META:Roof'', snd r_roof), (''META:GLA'', snd r_gla),
              (''META:Above'', snd r_abv), (''META:Below'', snd r_blw), (''META:Bed'', snd r_bed),
              (''META:Bath'', snd r_bath), (''META:Stories'', snd r_story), (''META:Q'', snd r_qual),
              (''META:C'', snd r_cond), (''META:Floor'', snd r_floor), (''META:Int'', snd r_int),
              (''META:FP'', snd r_fp), (''META:Cool'', snd r_cool), (''META:Heat'', snd r_heat),
              (''META:Garage'', snd r_gar), (''META:Outdoor'', snd r_out),
              (''META:Energy'', snd r_energy), (''META:External'', snd r_ext),
              (''META:Exemptions'', snd r_exm)] \<rparr>)"

definition run_row ::
    "series \<Rightarrow> dataframe \<Rightarrow> AdjustmentPolicy \<Rightarrow> CostAssumptions \<Rightarrow> pyfloat \<Rightarrow> series
      \<Rightarrow> py_error + grid_row" where
  "run_row subject comps policy costs indicated_value cmp =
     (case gla subject cmp comps costs of
        Inl e \<Rightarrow> Inl e
      | Inr r_gla \<Rightarrow> Inr (build_row subject policy costs indicated_value cmp r_gla))"

text \<open>The loop over the rows: the first error ends it.\<close>

fun run_loop :: "(series \<Rightarrow> py_error + grid_row) \<Rightarrow> series list \<Rightarrow> py_error + grid_row list" where
  "run_loop body [] = Inr []"
| "run_loop body (c # cs) =
     (case body c of
        Inl e \<Rightarrow> Inl e
      | Inr row \<Rightarrow>
          (case run_loop body cs of
             Inl e \<Rightarrow> Inl e
           | Inr grid \<Rightarrow> Inr (row # grid)))"

text \<open>
  \<open>run\<close>. The market basis is the \<open>nanmedian\<close> of the sale price column, or NaN when
  the frame has no such column. On a column that holds a \<open>None\<close> cell, a column of Python
  objects, \<open>np.nanmedian\<close> raises \<open>TypeError\<close>. The grid is \<open>pd.DataFrame(rows)\<close>. Built
  from an empty list it has no columns, and reading its adjusted price column for the
  summary raises \<open>KeyError\<close>.
\<close>

definition run ::
    "series \<Rightarrow> dataframe \<Rightarrow> AdjustmentPolicy \<Rightarrow> CostAssumptions
      \<Rightarrow> py_error + (grid_row list \<times> pyfloat)" where
  "run subject comps policy costs =
     (if ''sale_price'' \<in> set (columns comps)
         \<and> list_ex (\<lambda>r. get_sale_price r = NoneNum) (rows comps)
      then Inl TypeError
      else let indicated_value =
                 (if ''sale_price'' \<in> set (columns comps)
                  then nanmedian (map (\<lambda>r. num (get_sale_price r)) (rows comps))
                  else NaN)
           in case run_loop (run_row subject comps policy costs indicated_value) (rows comps) of
                Inl e \<Rightarrow> Inl e
              | Inr grid \<Rightarrow>
                  if grid = [] then Inl KeyError
                  else Inr (grid, nanmedian (map Adjusted_Price grid)))"

section \<open>io.py\<close>

text \<open>The columns of the frame the loader builds: the keys of the dict of \<open>_to_row\<close>.\<close>

definition loader_columns :: "string list" where
  "loader_columns =
     [''role'', ''address'', ''sale_price'', ''sale_date'', ''gla'', ''above_grade_size'',
      ''below_grade_size'', ''lot_sqft'', ''beds'', ''baths'', ''baths_full'', ''baths_half'',
      ''stories'', ''year_built'', ''style'', ''construction_materials'', ''foundation_details'',
      ''roof'', ''basement'', ''cooling'', ''heating'', ''garage_spaces'', ''parking_desc'',
      ''fencing'', ''lot_features_text'', ''interior_features'', ''flooring'',
      ''property_condition_label'', ''hoa'', ''hoa_fee'', ''neighborhood'', ''subdivision'',
      ''school_district'', ''waterfront'', ''electric'', ''electric_220_volts'',
      ''electric_pv_on_grid'', ''natural_gas_connected'', ''solar'', ''utilities_raw'',
      ''avg_school_rating'']"

section \<open>Vocabulary of the properties\<close>

text \<open>\<open>abs(x)\<close> and \<open>a <= b\<close> on floats; a comparison with NaN is false.\<close>

fun fabs :: "pyfloat \<Rightarrow> pyfloat" where
  "fabs NaN = NaN"
| "fabs (Fin a) = Fin \<bar>a\<bar>"
| "fabs PInf = PInf"
| "fabs NInf = PInf"

definition fle :: "pyfloat \<Rightarrow> pyfloat \<Rightarrow> bool" where
  "fle a b = (flt a b \<or> (\<not> isnan a \<and> a = b))"

text \<open>A record with no key set: every \<open>get\<close> reads \<open>None\<close>.\<close>

definition empty_series :: series where
  "empty_series = \<lparr>
     get_address = None, get_sale_price = NoneNum, get_sale_date = None, get_hoa_fee = NoneNum,
     get_neighborhood = None, get_subdivision = None, get_school_district = None,
     get_avg_school_rating = NoneNum, get_waterfront = None, get_lot_sqft = NoneNum,
     get_fencing = None, get_lot_features_text = None, get_year_built = NoneNum,
     get_style = None, get_construction_materials = None, get_foundation_details = None,
     get_roof = None, get_gla = NoneNum, get_above_grade_size = NoneNum,
     get_below_grade_size = NoneNum, get_beds = NoneNum, get_baths = NoneNum,
     get_stories = NoneNum, get_property_condition_label = None, get_flooring = None,
     get_interior_features = None, get_parking_desc = None, get_cooling = None,
     get_natural_gas_connected = None, get_garage_spaces = NoneNum, get_solar = None,
     get_electric_pv_on_grid = None \<rparr>"


text \<open>
  The median as the specification words it, over the whole column: the middle value of
  the sorted column when the count is odd, the average of the two middle values when it
  is even.
\<close>

definition spec_median :: "pyfloat list \<Rightarrow> pyfloat" where
  "spec_median xs =
     (let v = fsort xs; n = length v
      in if odd n then v ! (n div 2)
         else fdiv (fadd (v ! (n div 2 - 1)) (v ! (n div 2))) (Fin 2))"




text \<open>
  The window \<open>[-w, w]\<close> applied to a value as \<open>_cap\<close> applies it: a number is clamped, and a
  NaN, which no comparison moves, leaves the upper end \<open>w\<close>.
\<close>

fun clamp_to :: "real \<Rightarrow> pyfloat \<Rightarrow> pyfloat" where
  "clamp_to w NaN = Fin w"
| "clamp_to w (Fin r) = Fin (max (- w) (min w r))"
| "clamp_to w PInf = Fin w"
| "clamp_to w NInf = Fin (- w)"

text \<open>
  The 28 line items of a row before capping: the label and the value each rule returns,
  in the order of the grid. The value of the GLA rule is passed in.
\<close>

definition rule_values ::
    "series \<Rightarrow> series \<Rightarrow> CostAssumptions \<Rightarrow> pyfloat \<Rightarrow> pyfloat \<Rightarrow> (string \<times> pyfloat) list" where
  "rule_values subject cmp costs indicated_value v_gla =
     [(''Time (Sale Date)'', fst (sale_date subject cmp costs indicated_value)),
      (''HOA Fees'', fst (hoa_fee subject cmp costs)),
      (''Neighborhood/Subdivision/Schools/Waterfront'',
         fst (location_school_water subject cmp costs indicated_value)),
      (''Lot Size'', fst (lot_size subject cmp costs)),
      (''Lot Features / Fencing'', fst (lot_features_fencing subject cmp costs)),
      (''Age / Year Built'', fst (age_year_built subject cmp costs)),
      (''Style'', fst (style subject cmp costs)),
      (''Construction Materials'', fst (construction subject cmp costs)),
      (''Foundation'', fst (foundation subject cmp costs)),
      (''Roof'', fst (roof subject cmp costs)),
      (''GLA'', v_gla),
      (''Above Grade Size'', fst (above_grade subject cmp costs)),
      (''Below Grade Size / Basement'', fst (below_grade subject cmp costs)),
      (''Bedrooms'', fst (bedrooms subject cmp costs)),
      (''Bathrooms'', fst (bathrooms subject cmp costs)),
      (''Stories'', fst (stories subject cmp costs)),
      (''Quality (Q)'', fst (quality subject cmp costs indicated_value)),
      (''Condition (C)'', fst (condition subject cmp costs indicated_value)),
      (''Flooring'', fst (flooring subject cmp costs)),
      (''Interior Features'', fst (interior_features subject cmp costs)),
      (''Fireplace'', fst (fireplace subject cmp costs)),
      (''Cooling'', fst (cooling subject cmp costs)),
      (''Heating'', fst (heating subject cmp costs)),
      (''Garage / Parking'', fst (garage_parking subject cmp costs)),
      (''Porch / Deck / Patio'', fst (porch_deck_patio subject cmp costs)),
      (''Energy / Utilities'', fst (energy_utilities subject cmp costs)),
      (''External Market (placeholders)'', fst (external_market subject cmp)),
      (''Exemptions (placeholders)'', fst (exemptions subject cmp))]"

text \<open>
  The inputs of the examples: a subject with four bedrooms and nothing else; a frame with
  the loader's columns and one comparable with three bedrooms and the given sale price;
  and a frame of two comparables equal to an empty subject in every field, the first with
  no sale price (NaN, as the loader writes it), the second sold for 100,000.
\<close>

definition example_subject :: series where
  "example_subject = empty_series\<lparr>get_beds := Num 4\<rparr>"

definition example_frame :: "numcell \<Rightarrow> dataframe" where
  "example_frame price =
     \<lparr>columns = loader_columns,
      rows = [empty_series\<lparr>get_beds := Num 3, get_sale_price := price\<rparr>]\<rparr>"

definition unpriced_pair_frame :: dataframe where
  "unpriced_pair_frame =
     \<lparr>columns = loader_columns,
      rows = [empty_series\<lparr>get_sale_price := NanNum\<rparr>,
              empty_series\<lparr>get_sale_price := Num 100000\<rparr>]\<rparr>"

section \<open>Properties\<close>

subsection \<open>Characters and floats\<close>

lemma lower_char_adds_32:
  "of_char (lower_char c) =
     (if 65 \<le> (of_char c :: nat) \<and> (of_char c :: nat) \<le> 90 then of_char c + 32 else (of_char c :: nat))"
  by (cases c) (simp add: Let_def)

lemma fmul_NaN_right: "fmul x NaN = NaN"
  by (cases x) simp_all

subsection \<open>Zero comparables\<close>

text \<open>
  C2. Given a subject and an empty comparable collection, \<open>run\<close> is claimed to return an
  empty grid and a NaN indicated value without raising. The code does not: the grid built
  from no rows has no adjusted price column, and the summary's read of it raises
  \<open>KeyError\<close>, for every subject, policy and cost model, whatever columns the empty
  frame has.
\<close>

theorem run_no_comparables_raises:
  "run subject (comps\<lparr>rows := []\<rparr>) policy costs = Inl KeyError"
  by (simp add: run_def)

subsection \<open>The sale-date trend\<close>

text \<open>
  C1. The sale-date rule is claimed to give an older comparable an upward adjustment:
  subject date 2024-06-01, comparable date 2023-06-01, trend 0.0025 a month and a sale
  price of 500,000 should give +15,000. The code computes the months from the comparable
  to the subject (+12), negates them, and returns -15,000, against its own comment
  (older comp, trend up).
\<close>

theorem sale_date_older_comp_adjusted_down:
  "sale_date (empty_series\<lparr>get_sale_date := Some (DateText 2024 6 1)\<rparr>)
     (empty_series\<lparr>get_sale_date := Some (DateText 2023 6 1), get_sale_price := Num 500000\<rparr>)
     default_costs (Fin 500000) =
   (Fin (- 15000),
    [(''months_diff'', ONum (Fin 12)), (''pct_per_month'', ONum (Fin 0.0025)),
     (''pct_total'', ONum (Fin (- 0.03)))])"
  by (simp add: sale_date_def months_between_def empty_series_def default_costs_def Let_def
      py_max_def py_min_def fsub_def)

text \<open>
  A date that pandas reads as NaT is not a missing date for \<open>months_between\<close>: the result
  is 120 months, where an absent or rejected date gives 0.
\<close>

lemma months_between_NaT:
  "months_between (Some NaTText) (Some (DateText 2023 6 1)) = Fin 120"
  "months_between (Some (DateText 2023 6 1)) (Some NaTText) = Fin 120"
  "months_between (Some BadText) (Some NaTText) = Fin 0"
  "months_between None (Some NaTText) = Fin 0"
  by (simp_all add: months_between_def py_max_def py_min_def fsub_def)

subsection \<open>An undefined market basis\<close>

text \<open>
  C7. With the fields a rule reads undefined on both sides, every rule is claimed to
  return exactly 0.0, the quality and condition rules also when no comparable has a sale
  price. In that case the market basis is NaN and both rules return NaN for every subject,
  comparable and cost model: the zero step count is multiplied by a NaN building value.
  For a comparable whose own sale price is NaN the sale date and location rules return NaN
  as well, where the dates and location fields are undefined: \<open>nan or 0.0\<close> is NaN.
\<close>

theorem quality_condition_nan_on_undefined_basis:
  "nanmedian (map (\<lambda>r. num (get_sale_price r)) [empty_series\<lparr>get_sale_price := NanNum\<rparr>]) = NaN
   \<and> fst (quality subject cmp costs NaN) = NaN
   \<and> fst (condition subject cmp costs NaN) = NaN
   \<and> fst (sale_date empty_series (empty_series\<lparr>get_sale_price := NanNum\<rparr>) costs NaN) = NaN
   \<and> fst (location_school_water empty_series (empty_series\<lparr>get_sale_price := NanNum\<rparr>) costs NaN) = NaN"
  by (simp add: quality_def condition_def sale_date_def location_school_water_def
      months_between_def Let_def fmul_NaN_right nanmedian_def fsort_def empty_series_def
      lower_def strip_def)

subsection \<open>Antisymmetry\<close>

lemma age_year_built_swap:
  "fst (age_year_built a b costs) = fneg (fst (age_year_built b a costs))
   \<and> \<not> isnan (fst (age_year_built a b costs))"
  by (cases "get_year_built a"; cases "get_year_built b")
     (simp_all add: age_year_built_def Let_def fsub_def algebra_simps)

lemma bedrooms_swap:
  "fst (bedrooms a b costs) = fneg (fst (bedrooms b a costs))
   \<and> \<not> isnan (fst (bedrooms a b costs))"
  by (cases "get_beds a"; cases "get_beds b")
     (simp_all add: bedrooms_def Let_def fsub_def algebra_simps)

lemma bathrooms_swap:
  "fst (bathrooms a b costs) = fneg (fst (bathrooms b a costs))
   \<and> \<not> isnan (fst (bathrooms a b costs))"
  by (cases "get_baths a"; cases "get_baths b")
     (simp_all add: bathrooms_def Let_def fsub_def algebra_simps)

lemma stories_swap:
  "fst (stories a b costs) = fneg (fst (stories b a costs))
   \<and> \<not> isnan (fst (stories a b costs))"
  by (cases "get_stories a"; cases "get_stories b")
     (simp_all add: stories_def Let_def fsub_def algebra_simps)

lemma lot_size_swap:
  "fst (lot_size a b costs) = fneg (fst (lot_size b a costs))
   \<and> \<not> isnan (fst (lot_size a b costs))"
  by (cases "get_lot_sqft a"; cases "get_lot_sqft b")
     (simp_all add: lot_size_def Let_def fsub_def algebra_simps)

text \<open>
  C8. For every pair of records and every cost model, swapping subject and comparable in
  the age, bedrooms, bathrooms, stories and lot size rules negates the adjustment. None of
  the five results is NaN, so the equality is also one of Python's floats.
\<close>

theorem swap_negates_adjustment:
  "fst (age_year_built a b costs) = fneg (fst (age_year_built b a costs))
   \<and> fst (bedrooms a b costs) = fneg (fst (bedrooms b a costs))
   \<and> fst (bathrooms a b costs) = fneg (fst (bathrooms b a costs))
   \<and> fst (stories a b costs) = fneg (fst (stories b a costs))
   \<and> fst (lot_size a b costs) = fneg (fst (lot_size b a costs))
   \<and> \<not> isnan (fst (age_year_built a b costs))
   \<and> \<not> isnan (fst (bedrooms a b costs))
   \<and> \<not> isnan (fst (bathrooms a b costs))
   \<and> \<not> isnan (fst (stories a b costs))
   \<and> \<not> isnan (fst (lot_size a b costs))"
  using age_year_built_swap [of a b costs] bedrooms_swap [of a b costs]
    bathrooms_swap [of a b costs] stories_swap [of a b costs] lot_size_swap [of a b costs]
  by blast

subsection \<open>The building share\<close>

text \<open>No rule reads \<open>building_share\<close>: every other field is untouched by its update.\<close>

lemma building_share_frame:
  "lot_psf (costs\<lparr>building_share := b\<rparr>) = lot_psf costs"
  "fence_token (costs\<lparr>building_share := b\<rparr>) = fence_token costs"
  "age_per_year (costs\<lparr>building_share := b\<rparr>) = age_per_year costs"
  "style_token (costs\<lparr>building_share := b\<rparr>) = style_token costs"
  "construction_token (costs\<lparr>building_share := b\<rparr>) = construction_token costs"
  "foundation_token (costs\<lparr>building_share := b\<rparr>) = foundation_token costs"
  "roof_token (costs\<lparr>building_share := b\<rparr>) = roof_token costs"
  "gla_factor_psf (costs\<lparr>building_share := b\<rparr>) = gla_factor_psf costs"
  "above_grade_psf (costs\<lparr>building_share := b\<rparr>) = above_grade_psf costs"
  "below_grade_finished_psf (costs\<lparr>building_share := b\<rparr>) = below_grade_finished_psf costs"
  "below_grade_unfinished_psf (costs\<lparr>building_share := b\<rparr>) = below_grade_unfinished_psf costs"
  "v_bed (costs\<lparr>building_share := b\<rparr>) = v_bed costs"
  "v_bath_full (costs\<lparr>building_share := b\<rparr>) = v_bath_full costs"
  "v_story (costs\<lparr>building_share := b\<rparr>) = v_story costs"
  "quality_pct_per_step (costs\<lparr>building_share := b\<rparr>) = quality_pct_per_step costs"
  "condition_pct_per_step (costs\<lparr>building_share := b\<rparr>) = condition_pct_per_step costs"
  "interior_token (costs\<lparr>building_share := b\<rparr>) = interior_token costs"
  "fireplace_each (costs\<lparr>building_share := b\<rparr>) = fireplace_each costs"
  "hvac_central_bonus (costs\<lparr>building_share := b\<rparr>) = hvac_central_bonus costs"
  "whole_house_fan_bonus (costs\<lparr>building_share := b\<rparr>) = whole_house_fan_bonus costs"
  "multi_unit_cooling_bonus (costs\<lparr>building_share := b\<rparr>) = multi_unit_cooling_bonus costs"
  "solar_contrib (costs\<lparr>building_share := b\<rparr>) = solar_contrib costs"
  "natural_gas_bonus (costs\<lparr>building_share := b\<rparr>) = natural_gas_bonus costs"
  "pv_on_grid_bonus (costs\<lparr>building_share := b\<rparr>) = pv_on_grid_bonus costs"
  "garage_space_value (costs\<lparr>building_share := b\<rparr>) = garage_space_value costs"
  "patio_pkg (costs\<lparr>building_share := b\<rparr>) = patio_pkg costs"
  "deck_pkg (costs\<lparr>building_share := b\<rparr>) = deck_pkg costs"
  "porch_pkg (costs\<lparr>building_share := b\<rparr>) = porch_pkg costs"
  "monthly_market_trend_pct (costs\<lparr>building_share := b\<rparr>) = monthly_market_trend_pct costs"
  "hoa_years_capitalized (costs\<lparr>building_share := b\<rparr>) = hoa_years_capitalized costs"
  "different_neighborhood_pct (costs\<lparr>building_share := b\<rparr>) = different_neighborhood_pct costs"
  "different_subdivision_pct (costs\<lparr>building_share := b\<rparr>) = different_subdivision_pct costs"
  "different_school_district_pct (costs\<lparr>building_share := b\<rparr>) = different_school_district_pct costs"
  "school_rating_pct_per_point (costs\<lparr>building_share := b\<rparr>) = school_rating_pct_per_point costs"
  "waterfront_pct (costs\<lparr>building_share := b\<rparr>) = waterfront_pct costs"
  by simp_all

lemma rules_ignore_building_share:
  "sale_date s c (costs\<lparr>building_share := b\<rparr>) iv = sale_date s c costs iv"
  "hoa_fee s c (costs\<lparr>building_share := b\<rparr>) = hoa_fee s c costs"
  "location_school_water s c (costs\<lparr>building_share := b\<rparr>) iv = location_school_water s c costs iv"
  "lot_size s c (costs\<lparr>building_share := b\<rparr>) = lot_size s c costs"
  "lot_features_fencing s c (costs\<lparr>building_share := b\<rparr>) = lot_features_fencing s c costs"
  "age_year_built s c (costs\<lparr>building_share := b\<rparr>) = age_year_built s c costs"
  "style s c (costs\<lparr>building_share := b\<rparr>) = style s c costs"
  "construction s c (costs\<lparr>building_share := b\<rparr>) = construction s c costs"
  "foundation s c (costs\<lparr>building_share := b\<rparr>) = foundation s c costs"
  "roof s c (costs\<lparr>building_share := b\<rparr>) = roof s c costs"
  "gla s c cs (costs\<lparr>building_share := b\<rparr>) = gla s c cs costs"
  "above_grade s c (costs\<lparr>building_share := b\<rparr>) = above_grade s c costs"
  "below_grade s c (costs\<lparr>building_share := b\<rparr>) = below_grade s c costs"
  "bedrooms s c (costs\<lparr>building_share := b\<rparr>) = bedrooms s c costs"
  "bathrooms s c (costs\<lparr>building_share := b\<rparr>) = bathrooms s c costs"
  "stories s c (costs\<lparr>building_share := b\<rparr>) = stories s c costs"
  "quality s c (costs\<lparr>building_share := b\<rparr>) iv = quality s c costs iv"
  "condition s c (costs\<lparr>building_share := b\<rparr>) iv = condition s c costs iv"
  "flooring s c (costs\<lparr>building_share := b\<rparr>) = flooring s c costs"
  "interior_features s c (costs\<lparr>building_share := b\<rparr>) = interior_features s c costs"
  "fireplace s c (costs\<lparr>building_share := b\<rparr>) = fireplace s c costs"
  "cooling s c (costs\<lparr>building_share := b\<rparr>) = cooling s c costs"
  "heating s c (costs\<lparr>building_share := b\<rparr>) = heating s c costs"
  "garage_parking s c (costs\<lparr>building_share := b\<rparr>) = garage_parking s c costs"
  "porch_deck_patio s c (costs\<lparr>building_share := b\<rparr>) = porch_deck_patio s c costs"
  "energy_utilities s c (costs\<lparr>building_share := b\<rparr>) = energy_utilities s c costs"
  unfolding sale_date_def hoa_fee_def location_school_water_def lot_size_def
      lot_features_fencing_def age_year_built_def style_def construction_def foundation_def
      roof_def gla_def above_grade_def below_grade_def bedrooms_def bathrooms_def stories_def
      quality_def condition_def flooring_def interior_features_def fireplace_def cooling_def
      cooling_score_def heating_def garage_parking_def porch_deck_patio_def energy_utilities_def
      building_share_frame
  by (rule refl)+


lemma build_row_ignores_building_share:
  "build_row subject policy (costs\<lparr>building_share := b\<rparr>) iv cmp g = build_row subject policy costs iv cmp g"
  by (simp only: build_row_def rules_ignore_building_share)

lemma run_row_ignores_building_share:
  "run_row subject comps policy (costs\<lparr>building_share := b\<rparr>) iv = run_row subject comps policy costs iv"
  by (rule ext) (simp only: run_row_def rules_ignore_building_share build_row_ignores_building_share)

text \<open>
  C10. Two runs whose cost models differ only in \<open>building_share\<close> return the same grid
  (line items and explanation payloads) and the same summary, or both raise: the quality
  and condition rules take the fixed fraction 0.60 of the market basis, and nothing reads
  the parameter.
\<close>

theorem run_ignores_building_share:
  "run subject comps policy (costs\<lparr>building_share := b\<rparr>) = run subject comps policy costs"
  by (simp only: run_def run_row_ignores_building_share)

subsection \<open>The caps\<close>

lemma cap_Fin:
  assumes "0 \<le> l"
  shows "\<exists>v. cap x (Fin l) pct = Fin v \<and> \<bar>v\<bar> \<le> \<bar>pct\<bar> * l"
proof -
  have w: "0 \<le> \<bar>pct\<bar> * l" using assms by simp
  show ?thesis
    using w by (cases x) (auto simp: cap_def Let_def py_min_def py_max_def)
qed

lemma net_Fin:
  assumes "0 \<le> l"
  shows "\<exists>v. py_max (fmul (Fin (- t)) (Fin l)) (py_min (fmul (Fin t) (Fin l)) n) = Fin v
             \<and> \<bar>v\<bar> \<le> \<bar>t\<bar> * l"
proof -
  have "\<bar>t * l\<bar> = \<bar>t\<bar> * l" using assms by (simp add: abs_mult)
  then show ?thesis
    by (cases n) (auto simp: py_min_def py_max_def)
qed

lemma line_base_Fin: "py_max (Fin b) (Fin 1) = Fin (max b 1)"
  by (simp add: py_max_def max_def)

lemma num_or_zero_cases: "num_or_zero c = NaN \<or> (\<exists>b. num_or_zero c = Fin b)"
  by (cases c) auto

lemma fle_Fin [simp]: "fle (Fin a) (Fin b) = (a \<le> b)"
  by (auto simp: fle_def)


lemma cap_unit_base: "cap x (Fin 1) pct = clamp_to \<bar>pct\<bar> x"
  by (cases x) (auto simp: cap_def Let_def py_min_def py_max_def)

lemma clamp_to_zero:
  "0 < w \<Longrightarrow> (clamp_to w x = Fin 0) = (x = Fin 0)"
  by (cases x) (auto simp: max_def min_def)

lemma run_row_build:
  assumes "run_row subject comps policy costs iv cmp = Inr row"
  obtains g where "gla subject cmp comps costs = Inr g"
    and "row = build_row subject policy costs iv cmp g"
  using assms by (auto simp: run_row_def split: sum.splits)

lemma build_row_Base [simp]:
  "Base_Sale_Price (build_row subject policy costs iv cmp g) = num_or_zero (get_sale_price cmp)"
  by (simp add: build_row_def Let_def)

lemma build_row_Net:
  "Net_Adjustment (build_row subject policy costs iv cmp g) =
     py_max (fmul (Fin (- total_cap_pct policy)) (py_max (num_or_zero (get_sale_price cmp)) (Fin 1)))
       (py_min (fmul (Fin (total_cap_pct policy)) (py_max (num_or_zero (get_sale_price cmp)) (Fin 1)))
          (py_sum (map snd (line_items (build_row subject policy costs iv cmp g)))))"
  by (simp add: build_row_def Let_def)

lemma build_row_Adjusted:
  "Adjusted_Price (build_row subject policy costs iv cmp g) =
     fadd (Base_Sale_Price (build_row subject policy costs iv cmp g))
          (Net_Adjustment (build_row subject policy costs iv cmp g))"
  by (simp add: build_row_def Let_def)

lemma build_row_items_eq:
  "line_items (build_row subject policy costs iv cmp g) =
     map (\<lambda>lx. (fst lx, cap (snd lx) (py_max (num_or_zero (get_sale_price cmp)) (Fin 1))
                           (line_cap_pct policy)))
       (rule_values subject cmp costs iv (fst g))"
  by (simp add: build_row_def Let_def rule_values_def)

lemma build_row_items:
  "list_all (\<lambda>v. \<exists>x. v = cap x (py_max (num_or_zero (get_sale_price cmp)) (Fin 1)) (line_cap_pct policy))
     (map snd (line_items (build_row subject policy costs iv cmp g)))"
  unfolding build_row_items_eq list_all_iff by auto

lemma build_row_length:
  "length (line_items (build_row subject policy costs iv cmp g)) = 28"
  by (simp add: build_row_items_eq rule_values_def)

lemma run_loop_Inr:
  "run_loop body cs = Inr grid \<Longrightarrow> list_all2 (\<lambda>c row. body c = Inr row) cs grid"
  by (induction cs arbitrary: grid) (auto split: sum.splits)

lemma run_Inr:
  assumes "run subject comps policy costs = Inr (grid, summ)"
  shows "list_all2 (\<lambda>c row. run_row subject comps policy costs
                     (nanmedian (map (\<lambda>r. num (get_sale_price r)) (rows comps))) c = Inr row)
           (rows comps) grid"
    and "summ = nanmedian (map Adjusted_Price grid)"
    and "grid \<noteq> []"
    and "''sale_price'' \<in> set (columns comps)"
    and "''gla'' \<in> set (columns comps)"
    and "\<not> list_ex (\<lambda>r. get_sale_price r = NoneNum) (rows comps)"
proof -
  from assms have l: "run_loop (run_row subject comps policy costs
       (if ''sale_price'' \<in> set (columns comps)
        then nanmedian (map (\<lambda>r. num (get_sale_price r)) (rows comps)) else NaN)) (rows comps) = Inr grid"
    and s: "summ = nanmedian (map Adjusted_Price grid)" and g: "grid \<noteq> []"
    and n: "\<not> (''sale_price'' \<in> set (columns comps) \<and> list_ex (\<lambda>r. get_sale_price r = NoneNum) (rows comps))"
    by (auto simp: run_def Let_def split: if_splits sum.splits)
  from run_loop_Inr [OF l] g obtain c row where
    "run_row subject comps policy costs
       (if ''sale_price'' \<in> set (columns comps)
        then nanmedian (map (\<lambda>r. num (get_sale_price r)) (rows comps)) else NaN) c = Inr row"
    by (cases grid; cases "rows comps") auto
  then have cols: "''sale_price'' \<in> set (columns comps) \<and> ''gla'' \<in> set (columns comps)"
    by (auto simp: run_row_def gla_def market_psf_def split: sum.splits if_splits)
  show "summ = nanmedian (map Adjusted_Price grid)" by (rule s)
  show "grid \<noteq> []" by (rule g)
  show "''sale_price'' \<in> set (columns comps)" "''gla'' \<in> set (columns comps)" using cols by auto
  show "\<not> list_ex (\<lambda>r. get_sale_price r = NoneNum) (rows comps)" using n cols by auto
  show "list_all2 (\<lambda>c row. run_row subject comps policy costs
                     (nanmedian (map (\<lambda>r. num (get_sale_price r)) (rows comps))) c = Inr row)
           (rows comps) grid"
    using run_loop_Inr [OF l] cols by simp
qed

lemma run_Inr_row:
  assumes "run subject comps policy costs = Inr (grid, summ)" and "row \<in> set grid"
  shows "\<exists>cmp g. cmp \<in> set (rows comps) \<and> gla subject cmp comps costs = Inr g
           \<and> row = build_row subject policy costs
                     (nanmedian (map (\<lambda>r. num (get_sale_price r)) (rows comps))) cmp g"
proof -
  from assms(2) obtain i where i: "i < length grid" "row = grid ! i"
    by (auto simp: in_set_conv_nth)
  from run_Inr(1) [OF assms(1)] i
  have len: "length (rows comps) = length grid"
    and r: "run_row subject comps policy costs
              (nanmedian (map (\<lambda>r. num (get_sale_price r)) (rows comps))) (rows comps ! i) = Inr row"
    by (auto simp: list_all2_conv_all_nth)
  from run_row_build [OF r] obtain g where
    "gla subject (rows comps ! i) comps costs = Inr g"
    "row = build_row subject policy costs
             (nanmedian (map (\<lambda>r. num (get_sale_price r)) (rows comps))) (rows comps ! i) g"
    by blast
  moreover have "rows comps ! i \<in> set (rows comps)" using i len by simp
  ultimately show ?thesis by blast
qed

lemma row_bounds:
  assumes b: "num_or_zero (get_sale_price cmp) = Fin b"
  shows "list_all (\<lambda>v. \<exists>r. v = Fin r \<and> \<bar>r\<bar> \<le> \<bar>line_cap_pct policy\<bar> * max b 1)
           (map snd (line_items (build_row subject policy costs iv cmp g)))"
    and "\<exists>r. Net_Adjustment (build_row subject policy costs iv cmp g) = Fin r
             \<and> \<bar>r\<bar> \<le> \<bar>total_cap_pct policy\<bar> * max b 1"
proof -
  have l: "0 \<le> max b 1" by simp
  have items: "list_all (\<lambda>v. \<exists>x. v = cap x (Fin (max b 1)) (line_cap_pct policy))
     (map snd (line_items (build_row subject policy costs iv cmp g)))"
    using build_row_items [where cmp=cmp and subject=subject and policy=policy
        and costs=costs and iv=iv and g=g]
    by (simp add: b line_base_Fin)
  show "list_all (\<lambda>v. \<exists>r. v = Fin r \<and> \<bar>r\<bar> \<le> \<bar>line_cap_pct policy\<bar> * max b 1)
           (map snd (line_items (build_row subject policy costs iv cmp g)))"
    unfolding list_all_iff
  proof
    fix v
    assume "v \<in> set (map snd (line_items (build_row subject policy costs iv cmp g)))"
    with items obtain x where "v = cap x (Fin (max b 1)) (line_cap_pct policy)"
      unfolding list_all_iff by blast
    with cap_Fin [OF l, of x "line_cap_pct policy"]
    show "\<exists>r. v = Fin r \<and> \<bar>r\<bar> \<le> \<bar>line_cap_pct policy\<bar> * max b 1" by simp
  qed
  show "\<exists>r. Net_Adjustment (build_row subject policy costs iv cmp g) = Fin r
             \<and> \<bar>r\<bar> \<le> \<bar>total_cap_pct policy\<bar> * max b 1"
    unfolding build_row_Net b line_base_Fin by (rule net_Fin [OF l])
qed

lemma row_bounds_fle:
  assumes b: "num_or_zero (get_sale_price cmp) = Fin b"
  shows "list_all (\<lambda>v. fle (fabs v) (fmul (Fin \<bar>line_cap_pct policy\<bar>) (py_max (Fin b) (Fin 1))))
           (map snd (line_items (build_row subject policy costs iv cmp g)))"
    and "fle (fabs (Net_Adjustment (build_row subject policy costs iv cmp g)))
           (fmul (Fin \<bar>total_cap_pct policy\<bar>) (py_max (Fin b) (Fin 1)))"
proof -
  show "list_all (\<lambda>v. fle (fabs v) (fmul (Fin \<bar>line_cap_pct policy\<bar>) (py_max (Fin b) (Fin 1))))
           (map snd (line_items (build_row subject policy costs iv cmp g)))"
    using row_bounds(1) [OF b, where subject=subject and policy=policy
        and costs=costs and iv=iv and g=g]
    unfolding list_all_iff line_base_Fin by auto
  show "fle (fabs (Net_Adjustment (build_row subject policy costs iv cmp g)))
           (fmul (Fin \<bar>total_cap_pct policy\<bar>) (py_max (Fin b) (Fin 1)))"
    using row_bounds(2) [OF b, where subject=subject and policy=policy
        and costs=costs and iv=iv and g=g]
    unfolding line_base_Fin by auto
qed

lemma run_projr:
  "\<not> isl (run subject comps policy costs) \<Longrightarrow>
   run subject comps policy costs =
     Inr (fst (projr (run subject comps policy costs)), snd (projr (run subject comps policy costs)))"
  by (cases "run subject comps policy costs") auto

text \<open>
  Two inputs at which the bound of C3 fails as it is worded, with \<open>line_cap_pct\<close> itself
  as the factor. A policy with a negative \<open>line_cap_pct\<close>: \<open>_cap\<close> takes the absolute
  value of the percentage, so the Bedrooms item is 9,000 and the worded bound is -9,000.
  A comparable whose sale price is NaN: \<open>nan or 0.0\<close> is NaN, the capping base and every
  line item of the row are NaN, and no comparison with NaN holds.
\<close>

theorem line_cap_bound_counterexample:
  "(\<exists>grid summ row v.
      run example_subject (example_frame (Num 100000))
          (default_policy\<lparr>line_cap_pct := - 0.09\<rparr>) default_costs = Inr (grid, summ)
      \<and> row \<in> set grid
      \<and> Base_Sale_Price row = Fin 100000
      \<and> (''Bedrooms'', v) \<in> set (line_items row)
      \<and> v = Fin 9000
      \<and> \<not> fle (fabs v)
            (fmul (Fin (line_cap_pct (default_policy\<lparr>line_cap_pct := - 0.09\<rparr>)))
               (py_max (Base_Sale_Price row) (Fin 1))))
   \<and> (\<exists>grid summ row v.
      run example_subject (example_frame NanNum) default_policy default_costs = Inr (grid, summ)
      \<and> row \<in> set grid
      \<and> Base_Sale_Price row = NaN
      \<and> (''Bedrooms'', v) \<in> set (line_items row)
      \<and> v = NaN
      \<and> \<not> fle (fabs v)
            (fmul (Fin (line_cap_pct default_policy)) (py_max (Base_Sale_Price row) (Fin 1))))"
proof -
  let ?run = "run example_subject (example_frame (Num 100000))
          (default_policy\<lparr>line_cap_pct := - 0.09\<rparr>) default_costs"
  let ?g = "fst (projr ?run)"
  have 0: "\<not> isl ?run" by code_simp
  have 1: "?run = Inr (?g, snd (projr ?run))" by (rule run_projr [OF 0])
  have 2: "hd ?g \<in> set ?g" by code_simp
  have 3: "Base_Sale_Price (hd ?g) = Fin 100000" by code_simp
  have 4: "(''Bedrooms'', Fin 9000) \<in> set (line_items (hd ?g))" by code_simp
  have 5: "\<not> fle (fabs (Fin 9000))
            (fmul (Fin (line_cap_pct (default_policy\<lparr>line_cap_pct := - 0.09\<rparr>)))
               (py_max (Fin 100000) (Fin 1)))"
    by (simp add: py_max_def)
  have a: "\<exists>grid summ row v. ?run = Inr (grid, summ) \<and> row \<in> set grid
      \<and> Base_Sale_Price row = Fin 100000 \<and> (''Bedrooms'', v) \<in> set (line_items row)
      \<and> v = Fin 9000
      \<and> \<not> fle (fabs v)
            (fmul (Fin (line_cap_pct (default_policy\<lparr>line_cap_pct := - 0.09\<rparr>)))
               (py_max (Base_Sale_Price row) (Fin 1)))"
    using 1 2 3 4 5 by metis
  let ?run' = "run example_subject (example_frame NanNum) default_policy default_costs"
  let ?g' = "fst (projr ?run')"
  have 6: "\<not> isl ?run'" by code_simp
  have 7: "?run' = Inr (?g', snd (projr ?run'))" by (rule run_projr [OF 6])
  have 8: "hd ?g' \<in> set ?g'" by code_simp
  have 9: "Base_Sale_Price (hd ?g') = NaN" by code_simp
  have 10: "(''Bedrooms'', NaN) \<in> set (line_items (hd ?g'))" by code_simp
  have 11: "\<not> fle (fabs NaN) (fmul (Fin (line_cap_pct default_policy)) (py_max NaN (Fin 1)))"
    by (simp add: fle_def)
  have b: "\<exists>grid summ row v. ?run' = Inr (grid, summ) \<and> row \<in> set grid
      \<and> Base_Sale_Price row = NaN \<and> (''Bedrooms'', v) \<in> set (line_items row)
      \<and> v = NaN
      \<and> \<not> fle (fabs v)
            (fmul (Fin (line_cap_pct default_policy)) (py_max (Base_Sale_Price row) (Fin 1)))"
    using 7 8 9 10 11 by metis
  show ?thesis using a b by (rule conjI)
qed

text \<open>
  C3, as amended. For every subject, comparable collection, policy and cost model, and
  every row of the grid whose base sale price is a number (not NaN): each of the 28 capped
  line items is at most \<open>|line_cap_pct| * max(base_price, 1.0)\<close> in absolute value, and
  the net adjustment at most \<open>|total_cap_pct| * max(base_price, 1.0)\<close>.
\<close>

theorem capped_items_within_window:
  assumes "run subject comps policy costs = Inr (grid, summ)"
    and "row \<in> set grid"
    and "\<not> isnan (Base_Sale_Price row)"
  shows "list_all (\<lambda>v. fle (fabs v)
            (fmul (Fin \<bar>line_cap_pct policy\<bar>) (py_max (Base_Sale_Price row) (Fin 1))))
           (map snd (line_items row))
       \<and> fle (fabs (Net_Adjustment row))
            (fmul (Fin \<bar>total_cap_pct policy\<bar>) (py_max (Base_Sale_Price row) (Fin 1)))
       \<and> length (line_items row) = 28"
proof -
  from run_Inr_row [OF assms(1,2)]
  obtain cmp g iv where row: "row = build_row subject policy costs iv cmp g"
    by blast
  from assms(3) obtain b where b: "num_or_zero (get_sale_price cmp) = Fin b"
    using num_or_zero_cases [of "get_sale_price cmp"] by (auto simp: row)
  show ?thesis
    using row_bounds_fle [OF b, where subject=subject and policy=policy
        and costs=costs and iv=iv and g=g]
    by (simp add: row b build_row_length)
qed

text \<open>
  The theorem at a run of one comparable sold for 100,000 with one bedroom less than the
  subject, under the default policy and cost model.
\<close>

theorem capped_items_within_window_witness:
  "run example_subject (example_frame (Num 100000)) default_policy default_costs
     = Inr (fst (projr (run example_subject (example_frame (Num 100000))
                          default_policy default_costs)),
            snd (projr (run example_subject (example_frame (Num 100000))
                          default_policy default_costs)))
   \<and> \<not> isnan (Base_Sale_Price (hd (fst (projr (run example_subject
                  (example_frame (Num 100000)) default_policy default_costs)))))
   \<and> list_all (\<lambda>v. fle (fabs v) (Fin 9000))
        (map snd (line_items (hd (fst (projr (run example_subject
                  (example_frame (Num 100000)) default_policy default_costs))))))
   \<and> fle (fabs (Net_Adjustment (hd (fst (projr (run example_subject
                  (example_frame (Num 100000)) default_policy default_costs))))))
          (Fin 27000)"
proof -
  let ?run = "run example_subject (example_frame (Num 100000)) default_policy default_costs"
  let ?g = "fst (projr ?run)"
  have 0: "\<not> isl ?run" by code_simp
  have 1: "?run = Inr (?g, snd (projr ?run))" by (rule run_projr [OF 0])
  have 2: "hd ?g \<in> set ?g" by code_simp
  have 3: "Base_Sale_Price (hd ?g) = Fin 100000" by code_simp
  have 4: "\<not> isnan (Base_Sale_Price (hd ?g))" by (simp add: 3)
  have 5: "fmul (Fin \<bar>line_cap_pct default_policy\<bar>) (py_max (Fin 100000) (Fin 1)) = Fin 9000"
    by (simp add: default_policy_def py_max_def)
  have 6: "fmul (Fin \<bar>total_cap_pct default_policy\<bar>) (py_max (Fin 100000) (Fin 1)) = Fin 27000"
    by (simp add: default_policy_def py_max_def)
  from capped_items_within_window [OF 1 2 4] 1 4 show ?thesis
    unfolding 3 5 6 by blast
qed

text \<open>
  A comparable sold for 0 under the default policy: its Bedrooms item is 0.09, not 0.
\<close>

theorem zero_base_counterexample:
  "\<exists>grid summ row v.
      run example_subject (example_frame (Num 0)) default_policy default_costs = Inr (grid, summ)
      \<and> row \<in> set grid
      \<and> Base_Sale_Price row = Fin 0
      \<and> (''Bedrooms'', v) \<in> set (line_items row)
      \<and> v = Fin 0.09"
proof -
  let ?run = "run example_subject (example_frame (Num 0)) default_policy default_costs"
  let ?g = "fst (projr ?run)"
  have 0: "\<not> isl ?run" by code_simp
  have 1: "?run = Inr (?g, snd (projr ?run))" by (rule run_projr [OF 0])
  have 2: "hd ?g \<in> set ?g" by code_simp
  have 3: "Base_Sale_Price (hd ?g) = Fin 0" by code_simp
  have 4: "(''Bedrooms'', Fin 0.09) \<in> set (line_items (hd ?g))" by code_simp
  show ?thesis using 1 2 3 4 by metis
qed

text \<open>
  C9, as amended. For every comparable whose base sale price is zero or negative, the
  capping base is floored at 1.0 and the cap window is \<open>|line_cap_pct| * 1.0\<close>, not zero:
  each capped line item of its row is the value its rule returned, clamped to the window
  from \<open>-|line_cap_pct|\<close> to \<open>+|line_cap_pct|\<close> (a NaN value gives \<open>+|line_cap_pct|\<close>). So
  every item is at most \<open>|line_cap_pct|\<close> in absolute value, and with a line cap other
  than 0 an item is 0 only where the rule itself returned 0.
\<close>

theorem nonpositive_base_window:
  assumes "run subject comps policy costs = Inr (grid, summ)"
    and "i < length grid"
    and "Base_Sale_Price (grid ! i) = Fin p"
    and "p \<le> 0"
  shows "\<exists>g. gla subject (rows comps ! i) comps costs = Inr g
          \<and> line_items (grid ! i) =
              map (\<lambda>lx. (fst lx, clamp_to \<bar>line_cap_pct policy\<bar> (snd lx)))
                (rule_values subject (rows comps ! i) costs
                   (nanmedian (map (\<lambda>r. num (get_sale_price r)) (rows comps))) (fst g))
          \<and> (line_cap_pct policy \<noteq> 0 \<longrightarrow>
               list_all2 (\<lambda>item lx. (snd item = Fin 0) = (snd lx = Fin 0))
                 (line_items (grid ! i))
                 (rule_values subject (rows comps ! i) costs
                   (nanmedian (map (\<lambda>r. num (get_sale_price r)) (rows comps))) (fst g)))
          \<and> list_all (\<lambda>v. fle (fabs v) (Fin \<bar>line_cap_pct policy\<bar>))
               (map snd (line_items (grid ! i)))"
proof -
  let ?iv = "nanmedian (map (\<lambda>r. num (get_sale_price r)) (rows comps))"
  let ?c = "rows comps ! i"
  from run_Inr(1) [OF assms(1)] assms(2)
  have r: "run_row subject comps policy costs ?iv ?c = Inr (grid ! i)"
    by (auto simp: list_all2_conv_all_nth)
  from run_row_build [OF r] obtain g where
    g: "gla subject ?c comps costs = Inr g"
    and row: "grid ! i = build_row subject policy costs ?iv ?c g"
    by blast
  from assms(3) have b: "num_or_zero (get_sale_price ?c) = Fin p"
    by (simp add: row)
  have m: "max p 1 = 1" using assms(4) by simp
  have items: "line_items (grid ! i) =
              map (\<lambda>lx. (fst lx, clamp_to \<bar>line_cap_pct policy\<bar> (snd lx)))
                (rule_values subject ?c costs ?iv (fst g))"
    by (simp only: row build_row_items_eq b line_base_Fin m cap_unit_base)
  have zero: "line_cap_pct policy \<noteq> 0 \<longrightarrow>
               list_all2 (\<lambda>item lx. (snd item = Fin 0) = (snd lx = Fin 0))
                 (line_items (grid ! i)) (rule_values subject ?c costs ?iv (fst g))"
    unfolding items by (auto simp: list_all2_conv_all_nth clamp_to_zero)
  have bound: "list_all (\<lambda>v. fle (fabs v) (Fin \<bar>line_cap_pct policy\<bar>))
                 (map snd (line_items (grid ! i)))"
    using row_bounds_fle(1) [OF b, where subject=subject and policy=policy
        and costs=costs and iv="?iv" and g=g]
    by (simp add: row line_base_Fin m)
  from g items zero bound show ?thesis by blast
qed

text \<open>
  The theorem at the comparable sold for 0, under the default policy (line cap 0.09): the
  Bedrooms rule returned 9,000 and its item is 0.09.
\<close>

theorem nonpositive_base_window_witness:
  "Base_Sale_Price (fst (projr (run example_subject (example_frame (Num 0))
                                  default_policy default_costs)) ! 0) = Fin 0
   \<and> (0 :: real) \<le> 0
   \<and> line_cap_pct default_policy \<noteq> 0
   \<and> (\<exists>g. gla example_subject (rows (example_frame (Num 0)) ! 0) (example_frame (Num 0))
              default_costs = Inr g
          \<and> line_items (fst (projr (run example_subject (example_frame (Num 0))
                                       default_policy default_costs)) ! 0) =
              map (\<lambda>lx. (fst lx, clamp_to \<bar>line_cap_pct default_policy\<bar> (snd lx)))
                (rule_values example_subject (rows (example_frame (Num 0)) ! 0) default_costs
                   (nanmedian (map (\<lambda>r. num (get_sale_price r)) (rows (example_frame (Num 0)))))
                   (fst g))
          \<and> list_all2 (\<lambda>item lx. (snd item = Fin 0) = (snd lx = Fin 0))
                 (line_items (fst (projr (run example_subject (example_frame (Num 0))
                                       default_policy default_costs)) ! 0))
                 (rule_values example_subject (rows (example_frame (Num 0)) ! 0) default_costs
                   (nanmedian (map (\<lambda>r. num (get_sale_price r)) (rows (example_frame (Num 0)))))
                   (fst g)))
   \<and> (''Bedrooms'', Fin 9000)
        \<in> set (rule_values example_subject (rows (example_frame (Num 0)) ! 0) default_costs
                   (nanmedian (map (\<lambda>r. num (get_sale_price r)) (rows (example_frame (Num 0)))))
                   (Fin 0))
   \<and> (''Bedrooms'', Fin 0.09)
        \<in> set (line_items (fst (projr (run example_subject (example_frame (Num 0))
                                       default_policy default_costs)) ! 0))"
proof -
  let ?run = "run example_subject (example_frame (Num 0)) default_policy default_costs"
  let ?g = "fst (projr ?run)"
  have 0: "\<not> isl ?run" by code_simp
  have 1: "?run = Inr (?g, snd (projr ?run))" by (rule run_projr [OF 0])
  have 2: "0 < length ?g" by code_simp
  have 3: "Base_Sale_Price (?g ! 0) = Fin 0" by code_simp
  have 4: "(0 :: real) \<le> 0" by simp
  have 5: "line_cap_pct default_policy \<noteq> 0" by (simp add: default_policy_def)
  have 6: "(''Bedrooms'', Fin 9000)
        \<in> set (rule_values example_subject (rows (example_frame (Num 0)) ! 0) default_costs
                   (nanmedian (map (\<lambda>r. num (get_sale_price r)) (rows (example_frame (Num 0)))))
                   (Fin 0))"
    by code_simp
  have 7: "(''Bedrooms'', Fin 0.09) \<in> set (line_items (?g ! 0))" by code_simp
  from nonpositive_base_window [OF 1 2 3 4] 5 3 4 6 7 show ?thesis by blast
qed


subsection \<open>The indicated value\<close>

lemma length_finsert: "length (finsert x xs) = Suc (length xs)"
  by (induction xs) auto

lemma length_fsort: "length (fsort xs) = length xs"
  by (induction xs) (simp_all add: fsort_def length_finsert)

lemma nanmedian_all_numbers:
  assumes "list_all (\<lambda>x. \<exists>r. x = Fin r) xs" and "xs \<noteq> []"
  shows "nanmedian xs = spec_median xs"
proof -
  from assms(1) have f: "filter (\<lambda>x. \<not> isnan x) xs = xs"
    by (induction xs) auto
  from assms(2) have n: "length (fsort xs) \<noteq> 0"
    by (simp add: length_fsort)
  show ?thesis
    using n by (simp add: nanmedian_def spec_median_def Let_def f)
qed

lemma build_row_Adjusted_number:
  assumes "notna (get_sale_price cmp)"
  shows "\<exists>r. Adjusted_Price (build_row subject policy costs iv cmp g) = Fin r"
proof -
  from assms obtain b where "get_sale_price cmp = Num b"
    by (cases "get_sale_price cmp") auto
  then have b: "num_or_zero (get_sale_price cmp) = Fin b"
    by simp
  from row_bounds(2) [OF b, where subject=subject and policy=policy
      and costs=costs and iv=iv and g=g]
  obtain r where "Net_Adjustment (build_row subject policy costs iv cmp g) = Fin r" by blast
  then show ?thesis by (simp add: build_row_Adjusted b)
qed

text \<open>
  Where every comparable has a sale price, the indicated value is the median of the whole
  adjusted price column as the specification words it.
\<close>

lemma indicated_value_median_when_priced:
  assumes "run subject comps policy costs = Inr (grid, summ)"
    and "list_all (\<lambda>r. notna (get_sale_price r)) (rows comps)"
  shows "summ = spec_median (map Adjusted_Price grid)
       \<and> list_all (\<lambda>x. \<exists>r. x = Fin r) (map Adjusted_Price grid)"
proof -
  have all: "list_all (\<lambda>x. \<exists>r. x = Fin r) (map Adjusted_Price grid)"
    unfolding list_all_iff
  proof
    fix x
    assume "x \<in> set (map Adjusted_Price grid)"
    then obtain row where row: "row \<in> set grid" "x = Adjusted_Price row" by auto
    from run_Inr_row [OF assms(1) row(1)] obtain cmp g iv where
      c: "cmp \<in> set (rows comps)" and r: "row = build_row subject policy costs iv cmp g"
      by blast
    from assms(2) c have "notna (get_sale_price cmp)" by (simp add: list_all_iff)
    from build_row_Adjusted_number [OF this] show "\<exists>r. x = Fin r" by (simp add: row(2) r)
  qed
  from run_Inr(2,3) [OF assms(1)] nanmedian_all_numbers [OF all]
  show ?thesis using all by simp
qed

text \<open>
  C6. The indicated value is claimed to be the median of the adjusted price column over
  the comparables: the average of the two middle values when their number is even. With
  two comparables, the first without a sale price (NaN), the base price of the first row is
  NaN where a missing price should give 0 (\<open>nan or 0.0\<close> is NaN), its adjusted price is
  NaN, and the pandas median skips it: the indicated value is 100,000, the adjusted price
  of the second comparable alone.
\<close>

theorem indicated_value_skips_unpriced_comparable:
  "\<exists>grid summ.
      run empty_series unpriced_pair_frame default_policy default_costs = Inr (grid, summ)
      \<and> map Base_Sale_Price grid = [NaN, Fin 100000]
      \<and> map Adjusted_Price grid = [NaN, Fin 100000]
      \<and> summ = Fin 100000
      \<and> spec_median (map Adjusted_Price grid) = NaN"
proof -
  let ?run = "run empty_series unpriced_pair_frame default_policy default_costs"
  have 0: "\<not> isl ?run" by code_simp
  have 1: "?run = Inr (fst (projr ?run), snd (projr ?run))" by (rule run_projr [OF 0])
  have 2: "map Base_Sale_Price (fst (projr ?run)) = [NaN, Fin 100000]" by code_simp
  have 3: "map Adjusted_Price (fst (projr ?run)) = [NaN, Fin 100000]" by code_simp
  have 4: "snd (projr ?run) = Fin 100000" by code_simp
  have 5: "spec_median [NaN, Fin 100000] = NaN" by code_simp
  show ?thesis using 1 2 3 4 5 by metis
qed

subsection \<open>The quality rule\<close>

lemma first_match_None:
  "(first_match kvs s = None) = list_all (\<lambda>kv. \<not> py_in (fst kv) s) kvs"
  by (induction kvs s rule: first_match.induct) auto

lemma q_luxury: "py_in ''luxury'' (lower (txt t)) \<Longrightarrow> q_from_text t = Some 2"
  by (simp add: q_from_text_def Q_MAP_def)

lemma q_average:
  "\<lbrakk>py_in ''average'' (lower (txt t)); \<not> py_in ''luxury'' (lower (txt t));
    \<not> py_in ''custom'' (lower (txt t)); \<not> py_in ''excellent'' (lower (txt t));
    \<not> py_in ''above average'' (lower (txt t))\<rbrakk> \<Longrightarrow> q_from_text t = Some 4"
  by (simp add: q_from_text_def Q_MAP_def)

lemma quality_formula:
  "fst (quality s c k (Fin iv)) =
     Fin (real_of_int (- (int_or (q_from_text (get_style s)) 4 - int_or (q_from_text (get_style c)) 4))
          * quality_pct_per_step k * (iv * 0.60))"
  by (simp only: quality_def Let_def fst_conv fmul.simps)

lemma q_default:
  "list_all (\<lambda>kv. \<not> py_in (fst kv) (lower (txt t))) Q_MAP \<Longrightarrow> int_or (q_from_text t) 4 = 4"
  by (simp add: q_from_text_def first_match_None [symmetric])

text \<open>
  C5. With a subject style text containing "luxury" (ordinal 2), a comparable style text
  containing "average" and none of the keywords that precede it in the table (ordinal 4),
  an indicated market value of 500,000 and \<open>quality_pct_per_step\<close> = 0.04, the quality
  rule returns exactly +24,000. For all inputs with a finite market value the rule is
  \<open>-steps * pct_per_step * (0.60 * market value)\<close> with \<open>steps = Q_subject - Q_comp\<close>, and
  a style text in which no keyword of the table occurs has the ordinal 4.
\<close>

theorem quality_luxury_vs_average:
  assumes "py_in ''luxury'' (lower (txt (get_style subject)))"
    and "py_in ''average'' (lower (txt (get_style cmp)))"
    and "\<not> py_in ''luxury'' (lower (txt (get_style cmp)))"
    and "\<not> py_in ''custom'' (lower (txt (get_style cmp)))"
    and "\<not> py_in ''excellent'' (lower (txt (get_style cmp)))"
    and "\<not> py_in ''above average'' (lower (txt (get_style cmp)))"
    and "quality_pct_per_step costs = 0.04"
  shows "q_from_text (get_style subject) = Some 2
       \<and> q_from_text (get_style cmp) = Some 4
       \<and> fst (quality subject cmp costs (Fin 500000)) = Fin 24000
       \<and> (\<forall>s c k iv. fst (quality s c k (Fin iv)) =
             Fin (real_of_int (- (int_or (q_from_text (get_style s)) 4
                                  - int_or (q_from_text (get_style c)) 4))
                  * quality_pct_per_step k * (iv * 0.60)))
       \<and> (\<forall>t. list_all (\<lambda>kv. \<not> py_in (fst kv) (lower (txt t))) Q_MAP
               \<longrightarrow> int_or (q_from_text t) 4 = 4)"
proof -
  have s: "q_from_text (get_style subject) = Some 2" by (rule q_luxury [OF assms(1)])
  have c: "q_from_text (get_style cmp) = Some 4" by (rule q_average [OF assms(2-6)])
  have "fst (quality subject cmp costs (Fin 500000)) = Fin 24000"
    by (simp add: quality_formula s c assms(7))
  with s c show ?thesis using quality_formula q_default by blast
qed

text \<open>
  The theorem at the style texts "Luxury estate" and "Average ranch" and the default cost
  model; "Colonial" holds no keyword.
\<close>

theorem quality_luxury_vs_average_witness:
  "py_in ''luxury'' (lower (txt (get_style (empty_series\<lparr>get_style := Some ''Luxury estate''\<rparr>))))
   \<and> py_in ''average'' (lower (txt (get_style (empty_series\<lparr>get_style := Some ''Average ranch''\<rparr>))))
   \<and> quality_pct_per_step default_costs = 0.04
   \<and> fst (quality (empty_series\<lparr>get_style := Some ''Luxury estate''\<rparr>)
                   (empty_series\<lparr>get_style := Some ''Average ranch''\<rparr>)
                   default_costs (Fin 500000)) = Fin 24000
   \<and> list_all (\<lambda>kv. \<not> py_in (fst kv) (lower (txt (Some ''Colonial'')))) Q_MAP
   \<and> int_or (q_from_text (Some ''Colonial'')) 4 = 4"
proof -
  let ?s = "empty_series\<lparr>get_style := Some ''Luxury estate''\<rparr>"
  let ?c = "empty_series\<lparr>get_style := Some ''Average ranch''\<rparr>"
  have 1: "py_in ''luxury'' (lower (txt (get_style ?s)))" by code_simp
  have 2: "py_in ''average'' (lower (txt (get_style ?c)))" by code_simp
  have 3: "\<not> py_in ''luxury'' (lower (txt (get_style ?c)))" by code_simp
  have 4: "\<not> py_in ''custom'' (lower (txt (get_style ?c)))" by code_simp
  have 5: "\<not> py_in ''excellent'' (lower (txt (get_style ?c)))" by code_simp
  have 6: "\<not> py_in ''above average'' (lower (txt (get_style ?c)))" by code_simp
  have 7: "quality_pct_per_step default_costs = 0.04" by (simp add: default_costs_def)
  have 8: "list_all (\<lambda>kv. \<not> py_in (fst kv) (lower (txt (Some ''Colonial'')))) Q_MAP"
    by code_simp
  from quality_luxury_vs_average [OF 1 2 3 4 5 6 7] 1 2 7 8 show ?thesis by blast
qed

subsection \<open>Missing inputs\<close>











end
